theory Spec2Isabelle
  imports Main
begin

section \<open>Python strings\<close>

text \<open>
  Query texts are modelled as ASCII strings (\<open>char list\<close>).  The functions below are
  the operations of Python's \<open>str\<close> that the tutor engine uses: \<open>upper\<close>, \<open>lower\<close>,
  \<open>strip\<close>, \<open>in\<close>, \<open>find\<close>, \<open>startswith\<close>, slicing, \<open>split\<close> and \<open>join\<close>.  Characters
  outside ASCII are left alone by \<open>upper\<close> and \<open>lower\<close> and count neither as white space
  nor as word characters.
\<close>

definition lower_letters :: string where
  "lower_letters = ''abcdefghijklmnopqrstuvwxyz''"

definition upper_letters :: string where
  "upper_letters = ''ABCDEFGHIJKLMNOPQRSTUVWXYZ''"

definition digits :: string where
  "digits = ''0123456789''"

definition upper_char :: "char \<Rightarrow> char" where
  "upper_char c = (case map_of (zip lower_letters upper_letters) c of Some u \<Rightarrow> u | None \<Rightarrow> c)"

definition lower_char :: "char \<Rightarrow> char" where
  "lower_char c = (case map_of (zip upper_letters lower_letters) c of Some l \<Rightarrow> l | None \<Rightarrow> c)"

definition upper :: "string \<Rightarrow> string" where
  "upper s = map upper_char s"

definition lower :: "string \<Rightarrow> string" where
  "lower s = map lower_char s"

text \<open>\<open>str.isspace\<close> on one ASCII character; the same class as \<open>\s\<close> of \<open>re\<close>.\<close>

definition isspace :: "char \<Rightarrow> bool" where
  "isspace c = (c \<in> set [CHR 0x09, CHR 0x0A, CHR 0x0B, CHR 0x0C, CHR 0x0D,
                          CHR 0x1C, CHR 0x1D, CHR 0x1E, CHR 0x1F, CHR 0x20])"

definition strip :: "string \<Rightarrow> string" where
  "strip s = rev (dropWhile isspace (rev (dropWhile isspace s)))"

fun startswith :: "string \<Rightarrow> string \<Rightarrow> bool" where
  "startswith s [] = True"
| "startswith [] (p # ps) = False"
| "startswith (c # cs) (p # ps) = (c = p \<and> startswith cs ps)"

text \<open>\<open>find0 sub s\<close> is \<open>s.find(sub)\<close>, with \<open>None\<close> for Python's \<open>-1\<close>.\<close>

fun find0 :: "string \<Rightarrow> string \<Rightarrow> nat option" where
  "find0 sub [] = (if sub = [] then Some 0 else None)"
| "find0 sub (c # cs) =
     (if startswith (c # cs) sub then Some 0 else map_option Suc (find0 sub cs))"

text \<open>\<open>str_find s sub start\<close> is \<open>s.find(sub, start)\<close> for a start \<open>\<ge> 0\<close>.\<close>

definition str_find :: "string \<Rightarrow> string \<Rightarrow> nat \<Rightarrow> nat option" where
  "str_find s sub start =
     (if start \<le> length s then map_option (\<lambda>i. i + start) (find0 sub (drop start s))
      else None)"

text \<open>\<open>str_in sub s\<close> is Python's \<open>sub in s\<close>.\<close>

definition str_in :: "string \<Rightarrow> string \<Rightarrow> bool" where
  "str_in sub s = (find0 sub s \<noteq> None)"

text \<open>\<open>slice s a b\<close> is \<open>s[a:b]\<close> for indices \<open>\<ge> 0\<close>; \<open>s[a:]\<close> is \<open>drop a s\<close>.\<close>

definition slice :: "string \<Rightarrow> nat \<Rightarrow> nat \<Rightarrow> string" where
  "slice s a b = take (b - a) (drop a s)"

text \<open>\<open>split_on sep s\<close> is \<open>s.split(sep)\<close> for a one-character separator.\<close>

fun split_on :: "char \<Rightarrow> string \<Rightarrow> string list" where
  "split_on sep [] = [[]]"
| "split_on sep (c # cs) =
     (if c = sep then [] # split_on sep cs
      else (case split_on sep cs of [] \<Rightarrow> [[c]] | w # ws \<Rightarrow> (c # w) # ws))"

text \<open>\<open>split_ws s\<close> is \<open>s.split()\<close>: the maximal runs of non-space characters.\<close>

function split_ws :: "string \<Rightarrow> string list" where
  "split_ws [] = []"
| "split_ws (c # cs) =
     (if isspace c then split_ws cs
      else (c # takeWhile (\<lambda>d. \<not> isspace d) cs) # split_ws (dropWhile (\<lambda>d. \<not> isspace d) cs))"
  by pat_completeness auto
termination
  by (relation "measure length") (auto simp: length_dropWhile_le less_Suc_eq_le)

text \<open>\<open>join sep xs\<close> is \<open>sep.join(xs)\<close>.\<close>

fun join :: "string \<Rightarrow> string list \<Rightarrow> string" where
  "join sep [] = []"
| "join sep [x] = x"
| "join sep (x # y # ys) = x @ sep @ join sep (y # ys)"

definition isdigit :: "string \<Rightarrow> bool" where
  "isdigit s = (s \<noteq> [] \<and> (\<forall>c \<in> set s. c \<in> set digits))"

section \<open>Findings\<close>

text \<open>
  The engine's error and suggestion dictionaries.  The keys \<open>message\<close>, \<open>type\<close> and
  \<open>severity\<close> are always present; \<open>explanation\<close>, \<open>source\<close> and \<open>available_tables\<close>
  only in some findings.
\<close>

record finding =
  message :: string
  ftype :: string
  severity :: string
  explanation :: "string option"
  source :: "string option"
  available_tables :: "string list option"

section \<open>Regular expressions of the engine\<close>

text \<open>
  The engine uses four patterns of Python's \<open>re\<close>.  Each is modelled by a matcher that
  tries the pattern at the start of a text, and by the scan of \<open>re.sub\<close>, \<open>re.findall\<close>
  or \<open>re.search\<close> over the text (leftmost match first, then on from its end).
  \<open>\w\<close> is \<open>[a-zA-Z0-9_]\<close> and \<open>\b\<close> needs the character before to be no word
  character; the scans carry that as a flag.
\<close>

definition is_ident_start :: "char \<Rightarrow> bool" where
  "is_ident_start c = (c \<in> set (lower_letters @ upper_letters @ ''_''))"

definition isword :: "char \<Rightarrow> bool" where
  "isword c = (c \<in> set (lower_letters @ upper_letters @ digits @ ''_''))"

text \<open>\<open>FUNC\s*\(\s*[^)]*\s*\)\<close> at the start of \<open>s\<close>: the length of the match.\<close>

definition match_agg_call :: "string \<Rightarrow> string \<Rightarrow> nat option" where
  "match_agg_call func s =
     (if startswith s func then
        (let s1 = drop (length func) s;
             ws = takeWhile isspace s1
         in case dropWhile isspace s1 of
              [] \<Rightarrow> None
            | c # s3 \<Rightarrow>
                if c = CHR ''(''
                then (let body = takeWhile (\<lambda>d. d \<noteq> CHR '')'') s3
                      in if length body < length s3
                         then Some (length func + length ws + 1 + length body + 1)
                         else None)
                else None)
      else None)"

text \<open>\<open>re.sub(FUNC\s*\(\s*[^)]*\s*\), '', s)\<close>\<close>

function re_sub_agg :: "string \<Rightarrow> string \<Rightarrow> string" where
  "re_sub_agg func [] = []"
| "re_sub_agg func (c # cs) =
     (case match_agg_call func (c # cs) of
        Some n \<Rightarrow> re_sub_agg func (drop (n - 1) cs)
      | None \<Rightarrow> c # re_sub_agg func cs)"
  by pat_completeness auto
termination
  by (relation "measure (\<lambda>(func, s). length s)") auto

text \<open>\<open>AS\s+[a-zA-Z_][a-zA-Z0-9_]*\<close> at the start of \<open>s\<close> (the \<open>\b\<close> is the scan's).\<close>

definition match_alias :: "string \<Rightarrow> nat option" where
  "match_alias s =
     (if startswith s ''AS'' then
        (let s1 = drop 2 s;
             ws = takeWhile isspace s1
         in case dropWhile isspace s1 of
              [] \<Rightarrow> None
            | c # rest \<Rightarrow>
                if ws \<noteq> [] \<and> is_ident_start c
                then Some (2 + length ws + 1 + length (takeWhile isword rest))
                else None)
      else None)"

text \<open>\<open>re.sub(r'\bAS\s+[a-zA-Z_][a-zA-Z0-9_]*', '', s)\<close>\<close>

function re_sub_alias :: "bool \<Rightarrow> string \<Rightarrow> string" where
  "re_sub_alias prev_word [] = []"
| "re_sub_alias prev_word (c # cs) =
     (case (if prev_word then None else match_alias (c # cs)) of
        Some n \<Rightarrow> re_sub_alias True (drop (n - 1) cs)
      | None \<Rightarrow> c # re_sub_alias (isword c) cs)"
  by pat_completeness auto
termination
  by (relation "measure (\<lambda>(p, s). length s)") auto

text \<open>\<open>re.findall(r'\b[a-zA-Z_][a-zA-Z0-9_]*\b', s)\<close>\<close>

function re_findall_words :: "bool \<Rightarrow> string \<Rightarrow> string list" where
  "re_findall_words prev_word [] = []"
| "re_findall_words prev_word (c # cs) =
     (if \<not> prev_word \<and> is_ident_start c
      then (c # takeWhile isword cs) # re_findall_words True (dropWhile isword cs)
      else re_findall_words (isword c) cs)"
  by pat_completeness auto
termination
  by (relation "measure (\<lambda>(p, s). length s)")
     (auto simp: length_dropWhile_le less_Suc_eq_le)

text \<open>\<open>FUNC\s*\([^)]*COL[^)]*\)\<close> at the start of \<open>s\<close>.\<close>

definition match_agg_with_col :: "string \<Rightarrow> string \<Rightarrow> string \<Rightarrow> bool" where
  "match_agg_with_col func col s =
     (startswith s func \<and>
      (case dropWhile isspace (drop (length func) s) of
         [] \<Rightarrow> False
       | c # s3 \<Rightarrow>
           c = CHR ''('' \<and>
           (let body = takeWhile (\<lambda>d. d \<noteq> CHR '')'') s3
            in length body < length s3 \<and> str_in col body)))"

fun search_agg_with_col :: "string \<Rightarrow> string \<Rightarrow> string \<Rightarrow> bool" where
  "search_agg_with_col func col [] = False"
| "search_agg_with_col func col (c # cs) =
     (match_agg_with_col func col (c # cs) \<or> search_agg_with_col func col cs)"

text \<open>
  \<open>re.search(rf"{func}\s*\([^)]*{re.escape(col)}[^)]*\)", text, re.IGNORECASE)\<close>:
  on ASCII text, ignoring case is comparing the upper-cased strings.
\<close>

definition re_search_agg_with_col :: "string \<Rightarrow> string \<Rightarrow> string \<Rightarrow> bool" where
  "re_search_agg_with_col func col text =
     search_agg_with_col (upper func) (upper col) (upper text)"

section \<open>Column extraction\<close>

definition aggregate_functions :: "string list" where
  "aggregate_functions = [''COUNT'', ''SUM'', ''AVG'', ''MIN'', ''MAX'']"

definition sql_keywords :: "string list" where
  "sql_keywords = [''SELECT'', ''FROM'', ''WHERE'', ''GROUP BY'', ''HAVING'', ''ORDER BY'',
     ''JOIN'', ''INNER'', ''LEFT'', ''RIGHT'', ''ON'', ''AND'', ''OR'', ''NOT'', ''AS'']"

text \<open>
  \<open>_extract_select_clause\<close>.  The argument is \<open>str(parsed)\<close>, the text of the first
  statement that the SQL parser found in the query.
\<close>

definition extract_select_clause :: "string \<Rightarrow> string" where
  "extract_select_clause parsed =
     (let query_str = upper parsed
      in case str_find query_str ''SELECT'' 0 of
           None \<Rightarrow> []
         | Some select_start \<Rightarrow>
             (case str_find query_str ''FROM'' select_start of
                None \<Rightarrow> drop select_start query_str
              | Some from_start \<Rightarrow> slice query_str select_start from_start))"

text \<open>\<open>_extract_columns_from_select\<close>\<close>

definition extract_columns_from_select :: "string \<Rightarrow> string list" where
  "extract_columns_from_select select_clause =
     (let temp_clause = fold re_sub_agg aggregate_functions (upper select_clause);
          temp_clause = re_sub_alias False temp_clause;
          words = re_findall_words False temp_clause;
          excluded_keywords = sql_keywords @
            [''FROM'', ''WHERE'', ''GROUP'', ''HAVING'', ''ORDER'', ''BY'', ''JOIN'', ''ON'',
             ''INNER'', ''LEFT'', ''RIGHT'', ''OUTER'', ''AS'']
      in filter (\<lambda>w. upper w \<notin> set excluded_keywords \<and> \<not> isdigit w) words)"

text \<open>\<open>_extract_all_columns_from_select\<close>\<close>

definition extract_all_columns_from_select :: "string \<Rightarrow> string list" where
  "extract_all_columns_from_select select_clause =
     filter (\<lambda>c. upper c \<notin> set (sql_keywords @ [''AS'']) \<and> \<not> isdigit c)
       (re_findall_words False select_clause)"

section \<open>The GROUP BY checks\<close>

text \<open>
  \<open>_needs_group_by\<close>, which is what \<open>check_missing_group_by\<close> runs: the class defines
  \<open>check_missing_group_by\<close> twice, and the second definition, which calls
  \<open>_needs_group_by\<close>, replaces the first.
\<close>

definition needs_group_by :: "string \<Rightarrow> string \<Rightarrow> bool" where
  "needs_group_by parsed query_text =
     (let query_upper = upper query_text
      in if str_in ''GROUP BY'' query_upper then False
         else
           (let select_clause = extract_select_clause parsed
            in if select_clause = [] then False
               else
                 (let has_aggregate =
                        (\<exists>func \<in> set aggregate_functions. str_in func select_clause)
                  in if has_aggregate
                     then
                       (let all_columns = extract_columns_from_select select_clause;
                            non_aggregate_columns =
                              filter (\<lambda>col. \<not> (\<exists>func \<in> set aggregate_functions.
                                         re_search_agg_with_col func col select_clause))
                                all_columns
                        in non_aggregate_columns \<noteq> [])
                     else False)))"

definition check_missing_group_by :: "string \<Rightarrow> string \<Rightarrow> bool" where
  "check_missing_group_by parsed query_text = needs_group_by parsed query_text"

text \<open>
  The trigger of \<open>missing_group_by\<close> as the specification words it (section 4.4): no
  GROUP BY, an aggregate call \<open>FUNC\s*\([^)]*\)\<close> in the SELECT clause, and a non-empty
  \<open>extractNonAggregate(SELECT)\<close>.  It is compared with \<open>check_missing_group_by\<close> below.
\<close>

fun search_agg_call :: "string \<Rightarrow> string \<Rightarrow> bool" where
  "search_agg_call func [] = False"
| "search_agg_call func (c # cs) =
     (match_agg_call func (c # cs) \<noteq> None \<or> search_agg_call func cs)"

definition spec_missing_group_by :: "string \<Rightarrow> string \<Rightarrow> bool" where
  "spec_missing_group_by parsed query_text =
     (let select_clause = extract_select_clause parsed
      in \<not> str_in ''GROUP BY'' (upper query_text) \<and>
         (\<exists>func \<in> set aggregate_functions. search_agg_call func select_clause) \<and>
         extract_columns_from_select select_clause \<noteq> [])"

text \<open>\<open>check_missing_aggregate_with_group_by\<close>\<close>

definition has_aggregate_call :: "string \<Rightarrow> bool" where
  "has_aggregate_call select_clause =
     (\<exists>func \<in> set aggregate_functions.
        str_in (func @ ''('') select_clause \<or> str_in (func @ '' ('') select_clause)"

definition check_missing_aggregate_with_group_by :: "string \<Rightarrow> string \<Rightarrow> bool" where
  "check_missing_aggregate_with_group_by parsed query_text =
     (let query_upper = upper query_text
      in if str_in ''GROUP BY'' query_upper
         then (let select_clause = upper (extract_select_clause parsed)
               in \<not> has_aggregate_call select_clause)
         else False)"


section \<open>Exceptions, the knowledge base and the collaborators\<close>

text \<open>
  The exceptions that leave the engine uncaught: \<open>IndexError\<close> from \<open>xs[0]\<close> on an
  empty list, \<open>TypeError\<close> from iterating \<open>cursor.description\<close> when it is \<open>None\<close>, and
  whatever the database driver raises that is not an \<open>sqlite3.Error\<close>.
\<close>

datatype exn = IndexError | TypeError | DriverError string

text \<open>An analysis returns, raises, or does not terminate.\<close>

datatype 'a outcome = Returns 'a | Raises exn | Diverges

text \<open>What the ontology manager extracted: entries of its four dictionaries.\<close>

record ont_error =
  err_message :: string
  err_type :: string
  err_severity :: string
  err_explanation :: string

record sugg_info =
  sugg_message :: string
  sugg_type :: string

record concept =
  label :: string
  difficulty :: int
  prerequisite :: "string option"

record column_info =
  col_type :: string
  nullable :: bool
  primary_key :: bool

datatype sql_value = SqlNull | SqlInt int | SqlText string | SqlOther string

text \<open>
  What \<open>cursor.execute(query)\<close>, \<open>fetchall()\<close> and \<open>cursor.description\<close> give: the
  column names (\<open>None\<close> when the statement returns no rows) and the rows, an
  \<open>sqlite3.Error\<close> with its text, or another exception.
\<close>

datatype exec_outcome =
  Rows "string list option" "sql_value list list"
| SqliteError string
| RaisesOther string

text \<open>
  The engine with its collaborators.  \<open>schema\<close> is the engine's table dictionary (table
  key to column dictionary, in insertion order); \<open>ont_error_patterns\<close>,
  \<open>feedback_messages\<close> and \<open>sql_concepts\<close> are the ontology manager's dictionaries;
  \<open>sql_parse q\<close> is \<open>sqlparse.parse(q)[0]\<close>, either the text \<open>str(parsed)\<close> of the first
  statement or the message of the exception raised; \<open>run_query\<close> is the database.
\<close>

record engine =
  schema :: "(string \<times> (string \<times> column_info) list) list"
  ont_error_patterns :: "string \<rightharpoonup> ont_error"
  feedback_messages :: "(string \<times> sugg_info) list"
  sql_concepts :: "string \<rightharpoonup> concept"
  sql_parse :: "string \<Rightarrow> string + string"
  run_query :: "string \<Rightarrow> exec_outcome"

record exec_result =
  result_columns :: "string list"
  result_data :: "sql_value list list"
  result_row_count :: nat

record feedback =
  errors :: "finding list"
  warnings :: "finding list"
  suggestions :: "finding list"
  learning_path :: "string list"
  correctness :: string
  execution_result :: "exec_result option"

section \<open>The ontology manager's learning path\<close>

text \<open>
  \<open>get_concept_prerequisites\<close>: the \<open>while\<close> loop, with the list built so far.  The
  loop has no bound, so the result is \<open>None\<close> when it does not terminate.
\<close>

partial_function (option) prerequisites_loop ::
  "(string \<rightharpoonup> concept) \<Rightarrow> string \<Rightarrow> string list \<Rightarrow> string list option" where
  "prerequisites_loop concepts current_concept prerequisites =
     (case concepts current_concept of
        None \<Rightarrow> Some prerequisites
      | Some info \<Rightarrow>
          (case prerequisite info of
             None \<Rightarrow> Some prerequisites
           | Some prereq \<Rightarrow>
               if prereq \<noteq> [] \<and> concepts prereq \<noteq> None
               then prerequisites_loop concepts prereq (prerequisites @ [prereq])
               else Some prerequisites))"

declare prerequisites_loop.simps [code]

definition get_concept_prerequisites ::
  "(string \<rightharpoonup> concept) \<Rightarrow> string \<Rightarrow> string list option" where
  "get_concept_prerequisites concepts concept_name =
     prerequisites_loop concepts concept_name []"

text \<open>
  Python sets are modelled as duplicate-free lists.  The order in which Python iterates
  a set is not specified; the model takes insertion order.
\<close>

definition set_add :: "'a \<Rightarrow> 'a list \<Rightarrow> 'a list" where
  "set_add x xs = (if x \<in> set xs then xs else xs @ [x])"

definition set_update :: "'a list \<Rightarrow> 'a list \<Rightarrow> 'a list" where
  "set_update ys xs = fold set_add ys xs"

definition concepts_for_error :: "string \<Rightarrow> string list \<Rightarrow> string list" where
  "concepts_for_error error_type concepts_needed =
     (let error_type_lower = lower error_type
      in if str_in ''aggregate'' error_type_lower
         then set_add ''group_by_concept'' (set_add ''aggregate_functions_concept'' concepts_needed)
         else if str_in ''group'' error_type_lower \<or> str_in ''having'' error_type_lower
         then set_add ''having_clause_concept'' (set_add ''group_by_concept'' concepts_needed)
         else if str_in ''join'' error_type_lower
         then set_add ''join_concept'' concepts_needed
         else if str_in ''where'' error_type_lower
         then set_add ''where_clause_concept'' concepts_needed
         else concepts_needed)"

fun add_prerequisites ::
  "(string \<rightharpoonup> concept) \<Rightarrow> string list \<Rightarrow> string list \<Rightarrow> string list option" where
  "add_prerequisites concepts [] all_concepts = Some all_concepts"
| "add_prerequisites concepts (c # cs) all_concepts =
     (case get_concept_prerequisites concepts c of
        None \<Rightarrow> None
      | Some ps \<Rightarrow> add_prerequisites concepts cs (set_update ps all_concepts))"

definition difficulty_of :: "(string \<rightharpoonup> concept) \<Rightarrow> string \<Rightarrow> int" where
  "difficulty_of concepts c = (case concepts c of None \<Rightarrow> 1 | Some info \<Rightarrow> difficulty info)"

text \<open>\<open>suggest_learning_path\<close>; \<open>sorted\<close> is stable, as \<open>sort_key\<close> is.\<close>

definition suggest_learning_path ::
  "(string \<rightharpoonup> concept) \<Rightarrow> string list \<Rightarrow> string list option" where
  "suggest_learning_path concepts current_errors =
     (let concepts_needed = fold concepts_for_error current_errors []
      in map_option (sort_key (difficulty_of concepts))
           (add_prerequisites concepts concepts_needed concepts_needed))"


text \<open>
  For stating when the walk ends: \<open>next_concept\<close> is the concept the loop moves to
  (\<open>None\<close> where it breaks), and \<open>chain_ends concepts n c\<close> says that the chain from
  \<open>c\<close> breaks within \<open>n\<close> links.
\<close>

definition next_concept :: "(string \<rightharpoonup> concept) \<Rightarrow> string \<Rightarrow> string option" where
  "next_concept concepts c =
     (case concepts c of
        None \<Rightarrow> None
      | Some info \<Rightarrow>
          (case prerequisite info of
             None \<Rightarrow> None
           | Some prereq \<Rightarrow> if prereq \<noteq> [] \<and> concepts prereq \<noteq> None then Some prereq else None))"

fun chain_ends :: "(string \<rightharpoonup> concept) \<Rightarrow> nat \<Rightarrow> string \<Rightarrow> bool" where
  "chain_ends concepts 0 c = (next_concept concepts c = None)"
| "chain_ends concepts (Suc n) c =
     (case next_concept concepts c of None \<Rightarrow> True | Some p \<Rightarrow> chain_ends concepts n p)"

text \<open>Two concept tables: one whose links form a cycle, one whose links do not.\<close>

definition cyclic_concepts :: "string \<rightharpoonup> concept" where
  "cyclic_concepts =
     [''group_by_concept'' \<mapsto>
        \<lparr>label = ''GROUP BY'', difficulty = 3, prerequisite = Some ''aggregate_functions_concept''\<rparr>,
      ''aggregate_functions_concept'' \<mapsto>
        \<lparr>label = ''Aggregates'', difficulty = 3, prerequisite = Some ''group_by_concept''\<rparr>]"

definition sample_concepts :: "string \<rightharpoonup> concept" where
  "sample_concepts =
     [''select_concept'' \<mapsto> \<lparr>label = ''SELECT'', difficulty = 1, prerequisite = None\<rparr>,
      ''where_clause_concept'' \<mapsto>
        \<lparr>label = ''WHERE'', difficulty = 2, prerequisite = Some ''select_concept''\<rparr>,
      ''join_concept'' \<mapsto>
        \<lparr>label = ''JOIN'', difficulty = 4, prerequisite = Some ''where_clause_concept''\<rparr>]"

section \<open>Clause order (\<open>_check_clause_order\<close>)\<close>

definition expected_order :: "string list" where
  "expected_order = [''SELECT'', ''FROM'', ''WHERE'', ''GROUP BY'', ''HAVING'', ''ORDER BY'']"

definition clause_order_message :: "string list \<Rightarrow> string" where
  "clause_order_message clauses =
     ''SQL clauses should follow this order: SELECT -> FROM -> WHERE -> GROUP BY -> HAVING -> ORDER BY. Found: ''
       @ join '' -> '' clauses"

definition check_clause_order :: "string \<Rightarrow> finding option" where
  "check_clause_order query_text =
     (let query_upper = upper query_text;
          clauses = filter (\<lambda>clause. str_in clause query_upper) expected_order;
          filtered_expected = filter (\<lambda>c. c \<in> set clauses) expected_order
      in if clauses \<noteq> filtered_expected
         then Some \<lparr>message = clause_order_message clauses,
                    ftype = ''SYNTAX_ERROR'', severity = ''MEDIUM'',
                    explanation = None, source = None, available_tables = None\<rparr>
         else None)"

section \<open>Clause and table extraction\<close>

text \<open>
  The end of a clause: the least offset at which one of the keywords is found from
  \<open>start\<close> on, or the length of the text.
\<close>

definition clause_end :: "string \<Rightarrow> string list \<Rightarrow> nat \<Rightarrow> nat" where
  "clause_end query_str keywords start =
     fold (\<lambda>keyword e. case str_find query_str keyword start of
                          None \<Rightarrow> e
                        | Some pos \<Rightarrow> min e pos)
       keywords (length query_str)"

text \<open>\<open>_has_aggregate_in_where\<close>\<close>

definition has_aggregate_in_where :: "string \<Rightarrow> bool" where
  "has_aggregate_in_where parsed =
     (let query_str = upper parsed
      in case str_find query_str ''WHERE'' 0 of
           None \<Rightarrow> False
         | Some where_start \<Rightarrow>
             (let where_end =
                    clause_end query_str [''GROUP BY'', ''HAVING'', ''ORDER BY'', ''LIMIT'']
                      where_start;
                  where_clause = slice query_str where_start where_end
              in \<exists>func \<in> set aggregate_functions. str_in (func @ ''('') where_clause))"

text \<open>
  \<open>_extract_group_by_columns\<close>.  \<open>part.strip().split()[0]\<close> raises \<open>IndexError\<close> on a
  part that is empty or white space.
\<close>

fun group_by_parts :: "string list \<Rightarrow> string list \<Rightarrow> exn + string list" where
  "group_by_parts [] columns = Inr columns"
| "group_by_parts (part # parts) columns =
     (case split_ws (strip part) of
        [] \<Rightarrow> Inl IndexError
      | column # _ \<Rightarrow>
          group_by_parts parts
            (if column \<noteq> [] \<and> column \<notin> set sql_keywords then columns @ [column]
             else columns))"

definition extract_group_by_columns :: "string \<Rightarrow> exn + string list" where
  "extract_group_by_columns parsed =
     (let query_str = upper parsed
      in case str_find query_str ''GROUP BY'' 0 of
           None \<Rightarrow> Inr []
         | Some group_by_start \<Rightarrow>
             (let group_by_end =
                    clause_end query_str [''HAVING'', ''ORDER BY'', ''LIMIT''] group_by_start;
                  group_by_clause = strip (slice query_str (group_by_start + 8) group_by_end)
              in group_by_parts (split_on CHR '','' group_by_clause) []))"

text \<open>\<open>check_group_by_column_not_in_select\<close>\<close>

definition check_group_by_column_not_in_select :: "string \<Rightarrow> string \<Rightarrow> exn + bool" where
  "check_group_by_column_not_in_select parsed query_text =
     (let query_upper = upper query_text
      in if str_in ''GROUP BY'' query_upper
         then (case extract_group_by_columns parsed of
                 Inl e \<Rightarrow> Inl e
               | Inr group_by_columns \<Rightarrow>
                   (let select_clause = extract_select_clause parsed;
                        select_columns = extract_all_columns_from_select select_clause
                    in Inr (\<exists>group_col \<in> set group_by_columns.
                              upper group_col \<notin> set (map upper select_columns))))
         else Inr False)"

text \<open>
  \<open>_extract_table_names\<close>.  The list comprehension over the parts of the FROM clause
  takes \<open>tbl.strip().split()[0]\<close> of each, and so does the JOIN loop.
\<close>

fun first_words :: "string list \<Rightarrow> exn + string list" where
  "first_words [] = Inr []"
| "first_words (tbl # tbls) =
     (case split_ws (strip tbl) of
        [] \<Rightarrow> Inl IndexError
      | w # _ \<Rightarrow> (case first_words tbls of Inl e \<Rightarrow> Inl e | Inr ws \<Rightarrow> Inr (w # ws)))"

lemma startswith_length: "startswith s sub \<Longrightarrow> length sub \<le> length s"
  by (induction s sub rule: startswith.induct) auto

lemma find0_bound: "find0 sub s = Some i \<Longrightarrow> i + length sub \<le> length s"
proof (induction s arbitrary: i)
  case Nil
  then show ?case by (simp split: if_splits)
next
  case (Cons c cs)
  show ?case
  proof (cases "startswith (c # cs) sub")
    case True
    with Cons.prems startswith_length[OF True] show ?thesis by simp
  next
    case False
    with Cons.prems obtain j where "find0 sub cs = Some j" "i = Suc j" by auto
    with Cons.IH show ?thesis by auto
  qed
qed

lemma str_find_bounds:
  "str_find s sub start = Some i \<Longrightarrow> start \<le> i \<and> i + length sub \<le> length s"
  by (auto simp: str_find_def split: if_splits dest!: find0_bound)

function join_tables :: "string \<Rightarrow> nat \<Rightarrow> string list \<Rightarrow> exn + string list" where
  "join_tables query_str join_pos tables =
     (case str_find query_str ''ON'' join_pos of
        None \<Rightarrow> Inr tables
      | Some join_end \<Rightarrow>
          (case split_ws (strip (slice query_str (join_pos + 4) join_end)) of
             [] \<Rightarrow> Inl IndexError
           | join_table # _ \<Rightarrow>
               (case str_find query_str ''JOIN'' (join_pos + 1) of
                  None \<Rightarrow> Inr (tables @ [join_table])
                | Some next_pos \<Rightarrow>
                    join_tables query_str next_pos (tables @ [join_table]))))"
  by pat_completeness auto
termination
  by (relation "measure (\<lambda>(query_str, join_pos, tables). length query_str - join_pos)")
     (auto dest!: str_find_bounds)

definition extract_table_names :: "string \<Rightarrow> exn + string list" where
  "extract_table_names parsed =
     (let query_str = upper parsed
      in case (case str_find query_str ''FROM'' 0 of
                 None \<Rightarrow> Inr []
               | Some from_start \<Rightarrow>
                   (let from_end =
                          clause_end query_str
                            [''WHERE'', ''GROUP BY'', ''HAVING'', ''ORDER BY'', ''JOIN'']
                            from_start;
                        from_clause = strip (slice query_str (from_start + 4) from_end)
                    in first_words (split_on CHR '','' from_clause))) of
           Inl e \<Rightarrow> Inl e
         | Inr tables \<Rightarrow>
             (case (case str_find query_str ''JOIN'' 0 of
                      None \<Rightarrow> Inr tables
                    | Some join_pos \<Rightarrow> join_tables query_str join_pos tables) of
                Inl e \<Rightarrow> Inl e
              | Inr tables \<Rightarrow>
                  Inr (filter (\<lambda>tbl. tbl \<noteq> [] \<and>
                                 upper tbl \<notin> set [''INNER'', ''LEFT'', ''RIGHT'', ''FULL''])
                         tables)))"


section \<open>Ambiguous columns and schema constraints\<close>

text \<open>
  \<open>re.findall(r'\b' + re.escape(col) + r'\b', text, re.IGNORECASE)\<close>: the matched
  pieces of the text.  A \<open>\b\<close> holds where exactly one of the characters before and
  after is a word character.
\<close>

definition word_boundary :: "bool \<Rightarrow> string \<Rightarrow> bool" where
  "word_boundary prev_word s = (prev_word \<noteq> (case s of [] \<Rightarrow> False | c # _ \<Rightarrow> isword c))"

definition match_col :: "string \<Rightarrow> bool \<Rightarrow> string \<Rightarrow> bool" where
  "match_col col prev_word s =
     (length col \<le> length s \<and> upper (take (length col) s) = upper col \<and>
      word_boundary prev_word s \<and>
      word_boundary (if col = [] then prev_word else isword (last (take (length col) s)))
        (drop (length col) s))"

function re_findall_col :: "string \<Rightarrow> bool \<Rightarrow> string \<Rightarrow> string list" where
  "re_findall_col col prev_word [] = (if match_col col prev_word [] then [[]] else [])"
| "re_findall_col col prev_word (c # cs) =
     (if match_col col prev_word (c # cs)
      then take (length col) (c # cs) #
           re_findall_col col (isword (last (c # take (length col - 1) cs)))
             (drop (length col - 1) cs)
      else re_findall_col col (isword c) cs)"
  by pat_completeness auto
termination
  by (relation "measure (\<lambda>(col, p, s). length s)") auto

text \<open>
  The test on one match in \<open>_find_ambiguous_columns\<close>: the first place where the
  matched text occurs in the query is not the start, and none of the table names occurs
  in the 20 characters before it.
\<close>

definition used_unqualified :: "string list \<Rightarrow> string \<Rightarrow> string \<Rightarrow> bool" where
  "used_unqualified tables query_str matched =
     (case str_find (lower query_str) (lower matched) 0 of
        None \<Rightarrow> False
      | Some pos \<Rightarrow>
          pos > 0 \<and>
          (let preceding = strip (slice query_str (pos - 20) pos)
           in \<not> (\<exists>table \<in> set tables. str_in (lower table) preceding)))"

definition table_columns :: "engine \<Rightarrow> string \<Rightarrow> string list" where
  "table_columns eng table =
     (case map_of (schema eng) (lower table) of
        None \<Rightarrow> []
      | Some cols \<Rightarrow> remdups (map fst cols))"

text \<open>
  \<open>_find_ambiguous_columns\<close>.  The result is \<open>list(set(used_ambiguous))\<close>, in no
  specified order; only its being empty or not is used.
\<close>

definition find_ambiguous_columns :: "engine \<Rightarrow> string \<Rightarrow> exn + string list" where
  "find_ambiguous_columns eng parsed =
     (case extract_table_names parsed of
        Inl e \<Rightarrow> Inl e
      | Inr tables \<Rightarrow>
          if length tables < 2 then Inr []
          else
            (let known =
                   remdups (filter (\<lambda>table. map_of (schema eng) (lower table) \<noteq> None) tables);
                 all_cols = remdups (concat (map (table_columns eng) known));
                 column_occurrences =
                   (\<lambda>col. filter (\<lambda>table. col \<in> set (table_columns eng table)) known);
                 ambiguous_cols = filter (\<lambda>col. length (column_occurrences col) > 1) all_cols;
                 query_str = parsed;
                 used_ambiguous =
                   filter (\<lambda>col. \<exists>matched \<in> set (re_findall_col col False query_str).
                                   used_unqualified tables query_str matched)
                     ambiguous_cols
             in Inr (remdups used_ambiguous)))"

definition check_ambiguous_columns :: "engine \<Rightarrow> string \<Rightarrow> string \<Rightarrow> exn + bool" where
  "check_ambiguous_columns eng parsed query_text =
     (case find_ambiguous_columns eng parsed of
        Inl e \<Rightarrow> Inl e
      | Inr ambiguous_cols \<Rightarrow> Inr (length ambiguous_cols > 0))"

definition check_missing_from :: "string \<Rightarrow> string \<Rightarrow> bool" where
  "check_missing_from parsed query_text =
     (let query_upper = upper query_text
      in str_in ''SELECT'' query_upper \<and> \<not> str_in ''FROM'' query_upper)"

definition check_aggregate_in_where :: "string \<Rightarrow> string \<Rightarrow> bool" where
  "check_aggregate_in_where parsed query_text = has_aggregate_in_where parsed"

definition check_having_without_group :: "string \<Rightarrow> string \<Rightarrow> bool" where
  "check_having_without_group parsed query_text =
     (let query_upper = upper query_text
      in str_in ''HAVING'' query_upper \<and> \<not> str_in ''GROUP BY'' query_upper)"

text \<open>\<open>_check_schema_constraints\<close>\<close>

definition schema_error :: "engine \<Rightarrow> string \<Rightarrow> finding" where
  "schema_error eng table_name =
     (let found = filter (\<lambda>actual_table. str_in (lower table_name) actual_table \<or>
                                    str_in actual_table (lower table_name))
                    (map fst (schema eng));
          error_msg = ''Table '' @ [CHR 0x27] @ table_name @ [CHR 0x27] @
                      '' does not exist in the database schema.'';
          error_msg = (if found \<noteq> [] then error_msg @ '' Did you mean: '' @ join '', '' found @ ''?''
                       else error_msg)
      in \<lparr>message = error_msg, ftype = ''SCHEMA_ERROR'', severity = ''HIGH'',
          explanation = None, source = None,
          available_tables = Some (map fst (schema eng))\<rparr>)"

definition check_schema_constraints :: "engine \<Rightarrow> string \<Rightarrow> string \<Rightarrow> exn + finding list" where
  "check_schema_constraints eng query_text parsed =
     (case extract_table_names parsed of
        Inl e \<Rightarrow> Inl e
      | Inr table_names \<Rightarrow>
          Inr (concat (map (\<lambda>table_name.
                 if map_of (schema eng) (lower table_name) = None
                 then [schema_error eng table_name] else [])
               table_names)))"


section \<open>The error patterns (\<open>_initialize_error_patterns\<close>)\<close>

record error_pattern =
  check_function :: "string option"
  pattern_type :: string
  pattern_severity :: string
  pattern_message :: string
  pattern_explanation :: string

text \<open>\<open>str.title\<close> on ASCII text: a letter after a letter is lowered, any other letter raised.\<close>

fun title :: "bool \<Rightarrow> string \<Rightarrow> string" where
  "title prev_letter [] = []"
| "title prev_letter (c # cs) =
     (if c \<in> set (lower_letters @ upper_letters)
      then (if prev_letter then lower_char c else upper_char c) # title True cs
      else c # title False cs)"

text \<open>
  The built-in patterns in the order of the dictionary: key, check function, type and
  severity.  (The regular expression stored under \<open>missing_select\<close> is never used.)
\<close>

definition builtin_patterns :: "(string \<times> string option \<times> string \<times> string) list" where
  "builtin_patterns =
     [(''missing_select'', None, ''SYNTAX_ERROR'', ''HIGH''),
      (''missing_from'', Some ''check_missing_from'', ''SYNTAX_ERROR'', ''HIGH''),
      (''aggregate_in_where'', Some ''check_aggregate_in_where'', ''SEMANTIC_ERROR'', ''HIGH''),
      (''missing_group_by'', Some ''check_missing_group_by'', ''SEMANTIC_ERROR'', ''HIGH''),
      (''having_without_group'', Some ''check_having_without_group'', ''SEMANTIC_ERROR'',
         ''MEDIUM''),
      (''ambiguous_column'', Some ''check_ambiguous_columns'', ''SEMANTIC_ERROR'', ''MEDIUM''),
      (''group_by_column_not_in_select'', Some ''check_group_by_column_not_in_select'',
         ''SEMANTIC_ERROR'', ''HIGH''),
      (''missing_aggregate_with_group_by'', Some ''check_missing_aggregate_with_group_by'',
         ''SEMANTIC_ERROR'', ''HIGH'')]"

text \<open>
  "Enhance patterns with ontology data": the body of the loop, for one built-in
  pattern.
\<close>

definition enhance_pattern ::
  "(string \<rightharpoonup> ont_error) \<Rightarrow> string \<times> string option \<times> string \<times> string \<Rightarrow> error_pattern" where
  "enhance_pattern ontology_errors builtin =
     (case builtin of
        (pattern_key, check, ty, sev) \<Rightarrow>
          (case ontology_errors pattern_key of
             Some ontology_error \<Rightarrow>
               \<lparr>check_function = check,
                pattern_type = err_type ontology_error,
                pattern_severity = err_severity ontology_error,
                pattern_message = err_message ontology_error,
                pattern_explanation = err_explanation ontology_error\<rparr>
           | None \<Rightarrow>
               \<lparr>check_function = check, pattern_type = ty, pattern_severity = sev,
                pattern_message =
                  ''Error detected: '' @
                  title False (map (\<lambda>c. if c = CHR ''_'' then CHR '' '' else c) pattern_key),
                pattern_explanation = ''Refer to SQL documentation for proper usage.''\<rparr>))"

definition initialize_error_patterns ::
  "(string \<rightharpoonup> ont_error) \<Rightarrow> (string \<times> error_pattern) list" where
  "initialize_error_patterns ontology_errors =
     map (\<lambda>builtin. (fst builtin, enhance_pattern ontology_errors builtin)) builtin_patterns"

definition pattern_finding :: "error_pattern \<Rightarrow> finding" where
  "pattern_finding pat =
     \<lparr>message = pattern_message pat, ftype = pattern_type pat,
      severity = pattern_severity pat, explanation = Some (pattern_explanation pat),
      source = Some ''ontology'', available_tables = None\<rparr>"

section \<open>Syntax and semantic checks\<close>

text \<open>\<open>_check_syntax\<close>\<close>

definition check_syntax :: "engine \<Rightarrow> string \<Rightarrow> string \<Rightarrow> finding list" where
  "check_syntax eng query_text parsed =
     (let query_upper = strip (upper query_text);
          select_errors =
            (if \<not> startswith query_upper ''SELECT''
             then [case map_of (initialize_error_patterns (ont_error_patterns eng))
                          ''missing_select'' of
                     Some pat \<Rightarrow> pattern_finding pat
                   | None \<Rightarrow>
                       \<lparr>message = ''Query must start with SELECT keyword.'',
                        ftype = ''SYNTAX_ERROR'', severity = ''HIGH'', explanation = Some [],
                        source = Some ''ontology'', available_tables = None\<rparr>]
             else [])
      in select_errors @
         (case check_clause_order query_text of
            None \<Rightarrow> []
          | Some clause_order_error \<Rightarrow>
              [case ont_error_patterns eng ''clause_order'' of
                 Some ontology_error \<Rightarrow>
                   clause_order_error
                     \<lparr>message := err_message ontology_error,
                      explanation := Some (err_explanation ontology_error),
                      source := Some ''ontology''\<rparr>
               | None \<Rightarrow> clause_order_error]))"

text \<open>
  \<open>getattr(self, pattern['check_function'], None)\<close> and the call of the method found.
\<close>

definition run_check :: "engine \<Rightarrow> string \<Rightarrow> string \<Rightarrow> string \<Rightarrow> exn + bool" where
  "run_check eng name parsed query_text =
     (if name = ''check_missing_from'' then Inr (check_missing_from parsed query_text)
      else if name = ''check_aggregate_in_where''
        then Inr (check_aggregate_in_where parsed query_text)
      else if name = ''check_missing_group_by''
        then Inr (check_missing_group_by parsed query_text)
      else if name = ''check_having_without_group''
        then Inr (check_having_without_group parsed query_text)
      else if name = ''check_ambiguous_columns''
        then check_ambiguous_columns eng parsed query_text
      else if name = ''check_group_by_column_not_in_select''
        then check_group_by_column_not_in_select parsed query_text
      else if name = ''check_missing_aggregate_with_group_by''
        then Inr (check_missing_aggregate_with_group_by parsed query_text)
      else Inr False)"

text \<open>\<open>_check_semantics\<close>: the loop over the patterns, with the errors found so far.\<close>

fun semantics_loop ::
  "engine \<Rightarrow> string \<Rightarrow> string \<Rightarrow> (string \<times> error_pattern) list \<Rightarrow> finding list \<Rightarrow>
   exn + finding list" where
  "semantics_loop eng query_text parsed [] errs = Inr errs"
| "semantics_loop eng query_text parsed ((pattern_key, pat) # rest) errs =
     (case check_function pat of
        None \<Rightarrow> semantics_loop eng query_text parsed rest errs
      | Some name \<Rightarrow>
          (case run_check eng name parsed query_text of
             Inl e \<Rightarrow> Inl e
           | Inr fired \<Rightarrow>
               semantics_loop eng query_text parsed rest
                 (if fired then errs @ [pattern_finding pat] else errs)))"

definition check_semantics :: "engine \<Rightarrow> string \<Rightarrow> string \<Rightarrow> exn + finding list" where
  "check_semantics eng query_text parsed =
     semantics_loop eng query_text parsed
       (initialize_error_patterns (ont_error_patterns eng)) []"


section \<open>Execution (\<open>_try_execute_query\<close>)\<close>

text \<open>
  What \<open>_try_execute_query\<close> returns: a dictionary with an \<open>error\<close> or with a
  \<open>result\<close>.  The second component of the model's result is the list of statements
  passed to \<open>cursor.execute\<close>.
\<close>

datatype execution_feedback = ExecError finding | ExecResult exec_result

definition destructive_keywords :: "string list" where
  "destructive_keywords =
     [''DROP'', ''DELETE'', ''UPDATE'', ''INSERT'', ''ALTER'', ''CREATE'', ''TRUNCATE'']"

definition security_error :: finding where
  "security_error =
     \<lparr>message = ''This tutoring system only supports SELECT queries for learning purposes.'',
      ftype = ''SECURITY_ERROR'', severity = ''HIGH'',
      explanation = None, source = None, available_tables = None\<rparr>"

definition try_execute_query ::
  "engine \<Rightarrow> string \<Rightarrow> string \<Rightarrow> (exn + execution_feedback) \<times> string list" where
  "try_execute_query eng query_text parsed =
     (let query_upper = strip (upper query_text)
      in if \<exists>keyword \<in> set destructive_keywords. str_in keyword query_upper
         then (Inr (ExecError security_error), [])
         else
           (case run_query eng query_text of
              Rows description results \<Rightarrow>
                (case description of
                   None \<Rightarrow> Inl TypeError
                 | Some cols \<Rightarrow>
                     Inr (ExecResult \<lparr>result_columns = cols,
                                      result_data = take 10 results,
                                      result_row_count = length results\<rparr>))
            | SqliteError msg \<Rightarrow>
                Inr (ExecError
                  \<lparr>message = ''Execution error: '' @ msg,
                   ftype = ''EXECUTION_ERROR'', severity = ''HIGH'',
                   explanation =
                     Some ''The query failed to execute against the sample database.'',
                   source = None, available_tables = None\<rparr>)
            | RaisesOther msg \<Rightarrow> Inl (DriverError msg),
            [query_text]))"

section \<open>Suggestions (\<open>_generate_ontology_suggestions\<close>)\<close>

definition suggestion :: "sugg_info \<Rightarrow> string \<Rightarrow> finding" where
  "suggestion info sev =
     \<lparr>message = sugg_message info, ftype = sugg_type info, severity = sev,
      explanation = None, source = Some ''ontology'', available_tables = None\<rparr>"

text \<open>The loop over the suggestion templates, with the suggestions made so far.\<close>

fun suggestions_loop ::
  "string \<Rightarrow> string \<Rightarrow> (string \<times> sugg_info) list \<Rightarrow> finding list \<Rightarrow> exn + finding list" where
  "suggestions_loop query_text parsed [] suggs = Inr suggs"
| "suggestions_loop query_text parsed ((sugg_key, info) # rest) suggs =
     (let query_upper = upper query_text
      in if \<not> str_in ''ORDER BY'' query_upper \<and> str_in ''order_by'' (lower sugg_key) \<and>
            \<not> str_in ''GROUP BY'' query_upper
         then suggestions_loop query_text parsed rest (suggs @ [suggestion info ''LOW''])
         else if str_in ''*'' query_text \<and> str_in ''select_star'' (lower sugg_key) \<and>
            \<not> str_in ''COUNT(*)'' query_upper
         then suggestions_loop query_text parsed rest (suggs @ [suggestion info ''LOW''])
         else if str_in ''employees'' query_upper \<and> str_in ''departments'' query_upper \<and>
            str_in ''join'' (lower sugg_key) \<and> \<not> str_in ''JOIN'' query_upper
         then suggestions_loop query_text parsed rest (suggs @ [suggestion info ''MEDIUM''])
         else if str_in ''GROUP BY'' query_upper \<and>
            str_in ''group_by_aggregate'' (lower sugg_key)
         then (let select_clause = upper (extract_select_clause parsed);
                   has_aggregate = has_aggregate_call select_clause
               in suggestions_loop query_text parsed rest
                    (if \<not> has_aggregate then suggs @ [suggestion info ''MEDIUM'']
                     else suggs))
         else if str_in ''GROUP BY'' query_upper \<and> str_in ''group_by_select'' (lower sugg_key)
         then (case extract_group_by_columns parsed of
                 Inl e \<Rightarrow> Inl e
               | Inr group_by_columns \<Rightarrow>
                   (let select_clause = extract_select_clause parsed;
                        select_columns = extract_all_columns_from_select select_clause;
                        missing_in_select =
                          (\<exists>group_col \<in> set group_by_columns.
                             upper group_col \<notin> set (map upper select_columns))
                    in suggestions_loop query_text parsed rest
                         (if missing_in_select then suggs @ [suggestion info ''MEDIUM'']
                          else suggs)))
         else suggestions_loop query_text parsed rest suggs)"

definition generate_ontology_suggestions ::
  "engine \<Rightarrow> string \<Rightarrow> string \<Rightarrow> finding list \<Rightarrow> exn + finding list" where
  "generate_ontology_suggestions eng query_text parsed errs =
     suggestions_loop query_text parsed (feedback_messages eng) []"

section \<open>The analysis (\<open>analyze_query\<close>)\<close>

definition empty_input_error :: finding where
  "empty_input_error =
     \<lparr>message = ''Please enter a SQL query.'', ftype = ''EMPTY_INPUT'', severity = ''LOW'',
      explanation = None, source = None, available_tables = None\<rparr>"

definition parse_error :: "string \<Rightarrow> finding" where
  "parse_error e =
     \<lparr>message = ''Failed to parse query: '' @ e, ftype = ''PARSE_ERROR'', severity = ''HIGH'',
      explanation = None, source = None, available_tables = None\<rparr>"

text \<open>The message starts with a check mark, here in its UTF-8 encoding.\<close>

definition success_suggestion :: finding where
  "success_suggestion =
     \<lparr>message = [CHR 0xE2, CHR 0x9C, CHR 0x93] @
                 '' Query is syntactically and semantically correct!'',
      ftype = ''SUCCESS'', severity = ''LOW'',
      explanation = None, source = Some ''ontology'', available_tables = None\<rparr>"

text \<open>The last step of \<open>analyze_query\<close>: "Determine overall correctness".\<close>

definition determine_correctness :: "feedback \<Rightarrow> feedback" where
  "determine_correctness fb =
     (if errors fb = []
      then fb\<lparr>correctness := ''CORRECT'',
              suggestions := success_suggestion # suggestions fb\<rparr>
      else if \<exists>e \<in> set (errors fb). severity e = ''HIGH''
      then fb\<lparr>correctness := ''INCORRECT''\<rparr>
      else fb\<lparr>correctness := ''PARTIAL''\<rparr>)"

definition initial_feedback :: feedback where
  "initial_feedback =
     \<lparr>errors = [], warnings = [], suggestions = [], learning_path = [],
      correctness = ''UNKNOWN'', execution_result = None\<rparr>"

definition analyze_query :: "engine \<Rightarrow> string \<Rightarrow> feedback outcome \<times> string list" where
  "analyze_query eng query_text =
     (if strip query_text = []
      then (Returns (initial_feedback\<lparr>errors := [empty_input_error]\<rparr>), [])
      else
        case sql_parse eng query_text of
          Inl e \<Rightarrow> (Returns (initial_feedback\<lparr>errors := [parse_error e]\<rparr>), [])
        | Inr parsed \<Rightarrow>
            (let syntax_errors = check_syntax eng query_text parsed
             in case check_semantics eng query_text parsed of
                  Inl x \<Rightarrow> (Raises x, [])
                | Inr semantic_errors \<Rightarrow>
                    (case check_schema_constraints eng query_text parsed of
                       Inl x \<Rightarrow> (Raises x, [])
                     | Inr schema_errors \<Rightarrow>
                         (case try_execute_query eng query_text parsed of
                            (Inl x, executed) \<Rightarrow> (Raises x, executed)
                          | (Inr execution_feedback, executed) \<Rightarrow>
                              (let fb = initial_feedback
                                     \<lparr>errors := syntax_errors @ semantic_errors @ schema_errors\<rparr>;
                                   fb = (case execution_feedback of
                                           ExecError err \<Rightarrow> fb\<lparr>errors := errors fb @ [err]\<rparr>
                                         | ExecResult r \<Rightarrow> fb\<lparr>execution_result := Some r\<rparr>)
                               in case generate_ontology_suggestions eng query_text parsed
                                         (errors fb) of
                                    Inl x \<Rightarrow> (Raises x, executed)
                                  | Inr suggs \<Rightarrow>
                                      (let fb = fb\<lparr>suggestions := suggs\<rparr>;
                                           error_types = map ftype (errors fb)
                                       in case suggest_learning_path (sql_concepts eng)
                                                 error_types of
                                            None \<Rightarrow> (Diverges, executed)
                                          | Some path \<Rightarrow>
                                              (Returns (determine_correctness
                                                  (fb\<lparr>learning_path := path\<rparr>)),
                                               executed)))))))"


section \<open>A sample engine\<close>

text \<open>
  An engine over the three tables of the sample database, with no ontology error
  patterns (the built-in fallbacks apply), three suggestion templates, a parser that
  returns the query text as its single statement, and a database that answers every
  query with one row.  \<open>unparseable_engine\<close> is the same engine with a parser that
  raises.
\<close>

definition sample_engine :: engine where
  "sample_engine =
     \<lparr>schema =
        [(''employees'',
            [(''emp_id'', \<lparr>col_type = ''INTEGER'', nullable = False, primary_key = True\<rparr>),
             (''department'', \<lparr>col_type = ''VARCHAR'', nullable = True, primary_key = False\<rparr>)]),
         (''departments'',
            [(''dept_id'', \<lparr>col_type = ''INTEGER'', nullable = False, primary_key = True\<rparr>)]),
         (''projects'',
            [(''project_id'', \<lparr>col_type = ''INTEGER'', nullable = False, primary_key = True\<rparr>),
             (''department'', \<lparr>col_type = ''VARCHAR'', nullable = True, primary_key = False\<rparr>)])],
      ont_error_patterns = Map.empty,
      feedback_messages =
        [(''order_by_suggestion'',
            \<lparr>sugg_message = ''Consider adding ORDER BY.'', sugg_type = ''SUGGESTION''\<rparr>),
         (''select_star_suggestion'',
            \<lparr>sugg_message = ''Name the columns instead of *.'', sugg_type = ''SUGGESTION''\<rparr>),
         (''join_suggestion'',
            \<lparr>sugg_message = ''Use an explicit JOIN.'', sugg_type = ''SUGGESTION''\<rparr>)],
      sql_concepts = sample_concepts,
      sql_parse = Inr,
      run_query = (\<lambda>q. Rows (Some [''emp_id'']) [[SqlInt 1]])\<rparr>"

definition unparseable_engine :: engine where
  "unparseable_engine = sample_engine\<lparr>sql_parse := (\<lambda>q. Inl ''unparseable'')\<rparr>"


section \<open>Properties of the clause-order check\<close>

lemma filter_expected_idem:
  "filter (\<lambda>c. c \<in> set (filter P xs)) xs = filter P xs"
  by (rule filter_cong) auto

text \<open>
  The list \<open>clauses\<close> is collected by walking the canonical order, so it is always
  equal to its own canonical reordering and the check reports nothing, whatever the
  query.
\<close>

lemma check_clause_order_never_fires: "check_clause_order query_text = None"
  unfolding check_clause_order_def Let_def filter_expected_idem by simp

text \<open>
  Claim C2 (clause order).  The claim asks for a SyntaxError/Medium finding whenever
  the clauses appear out of canonical order.  In \<open>FROM employees SELECT *\<close> the FROM
  clause (offset 0) comes before the SELECT clause (offset 15), and
  \<open>_check_clause_order\<close> still returns no finding.
\<close>

theorem clause_order_reversed_not_reported:
  "str_find (upper ''FROM employees SELECT *'') ''FROM'' 0 = Some 0 \<and>
   str_find (upper ''FROM employees SELECT *'') ''SELECT'' 0 = Some 15 \<and>
   check_clause_order ''FROM employees SELECT *'' = None"
proof -
  have "str_find (upper ''FROM employees SELECT *'') ''FROM'' 0 = Some 0"
    by code_simp
  moreover have "str_find (upper ''FROM employees SELECT *'') ''SELECT'' 0 = Some 15"
    by code_simp
  moreover have "check_clause_order ''FROM employees SELECT *'' = None"
    by (rule check_clause_order_never_fires)
  ultimately show ?thesis by blast
qed

section \<open>Properties of the GROUP BY checks\<close>

lemma str_in_Nil: "str_in sub [] = (sub = [])"
  by (simp add: str_in_def)

lemma startswith_iff: "startswith s sub \<longleftrightarrow> (\<exists>post. s = sub @ post)"
  by (induction s sub rule: startswith.induct) auto

lemma str_in_iff: "str_in sub s \<longleftrightarrow> (\<exists>pre post. s = pre @ sub @ post)"
  unfolding str_in_def
proof (induction s)
  case Nil
  then show ?case by simp
next
  case (Cons c cs)
  show ?case
  proof (cases "startswith (c # cs) sub")
    case True
    then obtain post where "c # cs = [] @ sub @ post" by (auto simp: startswith_iff)
    with True show ?thesis by (metis find0.simps(2) option.distinct(1))
  next
    case False
    then have "find0 sub (c # cs) \<noteq> None \<longleftrightarrow> find0 sub cs \<noteq> None" by simp
    also have "\<dots> \<longleftrightarrow> (\<exists>pre post. cs = pre @ sub @ post)" by (rule Cons.IH)
    also have "\<dots> \<longleftrightarrow> (\<exists>pre post. c # cs = pre @ sub @ post)"
    proof
      assume "\<exists>pre post. cs = pre @ sub @ post"
      then obtain pre post where "cs = pre @ sub @ post" by (elim exE)
      then have "c # cs = (c # pre) @ sub @ post" by simp
      then show "\<exists>pre post. c # cs = pre @ sub @ post" by (intro exI)
    next
      assume "\<exists>pre post. c # cs = pre @ sub @ post"
      then obtain pre post where eq: "c # cs = pre @ sub @ post" by (elim exE)
      show "\<exists>pre post. cs = pre @ sub @ post"
      proof (cases pre)
        case Nil
        with eq have "startswith (c # cs) sub" by (simp add: startswith_iff)
        with False show ?thesis by simp
      next
        case (Cons d pre')
        with eq have "cs = pre' @ sub @ post" by simp
        then show ?thesis by (intro exI)
      qed
    qed
    finally show ?thesis .
  qed
qed

text \<open>
  What \<open>_needs_group_by\<close> tests: the upper-cased query text does not contain
  \<open>GROUP BY\<close>, the SELECT clause contains the \<^emph>\<open>name\<close> of an aggregate function as a
  substring, and some identifier left by \<open>_extract_columns_from_select\<close> does not
  occur between the parentheses of an aggregate call of the SELECT clause.
\<close>

lemma needs_group_by_tests:
  "check_missing_group_by parsed query_text \<longleftrightarrow>
      \<not> str_in ''GROUP BY'' (upper query_text) \<and>
      (\<exists>func \<in> set aggregate_functions. str_in func (extract_select_clause parsed)) \<and>
      (\<exists>col \<in> set (extract_columns_from_select (extract_select_clause parsed)).
         \<forall>func \<in> set aggregate_functions.
           \<not> re_search_agg_with_col func col (extract_select_clause parsed))"
proof (cases "extract_select_clause parsed = []")
  case True
  then show ?thesis
    by (simp add: check_missing_group_by_def needs_group_by_def Let_def str_in_Nil
        aggregate_functions_def)
next
  case False
  then show ?thesis
    by (auto simp add: check_missing_group_by_def needs_group_by_def Let_def
        filter_empty_conv)
qed

lemma missing_group_by_examples:
  "\<not> check_missing_group_by ''SELECT COUNT(*) FROM employees''
        ''SELECT COUNT(*) FROM employees'' \<and>
   check_missing_group_by ''SELECT department, COUNT(*) FROM employees''
        ''SELECT department, COUNT(*) FROM employees''"
  by code_simp

text \<open>
  Claim C1.  \<open>missing_group_by\<close> is to fire exactly when the query has no GROUP BY, its
  SELECT clause has an aggregate call and its SELECT clause has a non-aggregate column
  reference (\<open>spec_missing_group_by\<close>; the docstring of \<open>_needs_group_by\<close> says the same:
  has both aggregate and non-aggregate columns).  The code departs from this at
  three inputs.  \<open>SELECT discount FROM t\<close> has no aggregate call at all, yet the check
  fires, because the name \<open>COUNT\<close> is a substring of \<open>DISCOUNT\<close>.
  \<open>SELECT department, COUNT(department) FROM employees\<close> and
  \<open>SELECT id, SUM(paid) FROM t\<close> have an aggregate call beside a bare column, yet the
  check stays silent, because the bare column's name occurs somewhere between the
  parentheses of an aggregate call (\<open>ID\<close> inside \<open>PAID\<close>).
\<close>

theorem missing_group_by_not_spec_trigger:
  "check_missing_group_by ''SELECT discount FROM t'' ''SELECT discount FROM t'' \<and>
   \<not> spec_missing_group_by ''SELECT discount FROM t'' ''SELECT discount FROM t'' \<and>
   \<not> (\<exists>func \<in> set aggregate_functions.
        search_agg_call func (extract_select_clause ''SELECT discount FROM t'')) \<and>
   spec_missing_group_by ''SELECT department, COUNT(department) FROM employees''
     ''SELECT department, COUNT(department) FROM employees'' \<and>
   \<not> check_missing_group_by ''SELECT department, COUNT(department) FROM employees''
     ''SELECT department, COUNT(department) FROM employees'' \<and>
   spec_missing_group_by ''SELECT id, SUM(paid) FROM t'' ''SELECT id, SUM(paid) FROM t'' \<and>
   \<not> check_missing_group_by ''SELECT id, SUM(paid) FROM t'' ''SELECT id, SUM(paid) FROM t''"
  by code_simp



text \<open>
  The SELECT clause ends at the first \<open>FROM\<close> after the first \<open>SELECT\<close>, so the text
  after that \<open>FROM\<close>, where WHERE, GROUP BY and HAVING stand, has no part in what
  \<open>_extract_select_clause\<close> returns, nor in the aggregate test of the check.
\<close>

lemma startswith_append:
  "length sub \<le> length s \<Longrightarrow> startswith (s @ t) sub = startswith s sub"
  by (induction s sub rule: startswith.induct) auto

lemma find0_append:
  "find0 sub s = Some i \<Longrightarrow> find0 sub (s @ t) = Some i"
proof (induction s arbitrary: i)
  case Nil
  then show ?case by (cases t) (auto split: if_splits)
next
  case (Cons c cs)
  show ?case
  proof (cases "startswith (c # cs) sub")
    case True
    then have "length sub \<le> length (c # cs)" by (rule startswith_length)
    then have "startswith ((c # cs) @ t) sub" using True by (simp only: startswith_append)
    with True Cons.prems show ?thesis by simp
  next
    case False
    with Cons.prems obtain j where j: "find0 sub cs = Some j" and i: "i = Suc j"
      by auto
    from find0_bound[OF j] have "length sub \<le> length (c # cs)" by simp
    then have "startswith ((c # cs) @ t) sub = startswith (c # cs) sub"
      by (rule startswith_append)
    with False have "\<not> startswith (c # cs @ t) sub" by simp
    with Cons.IH[OF j] i show ?thesis by simp
  qed
qed

lemma find0_found: "\<exists>j. find0 sub (x @ sub) = Some j"
proof -
  have "str_in sub (x @ sub)"
    unfolding str_in_iff by (intro exI[of _ x] exI[of _ "[]"]) simp
  then show ?thesis by (simp add: str_in_def)
qed

lemma extract_select_clause_tail:
  assumes "str_in ''SELECT'' (upper head)"
  shows "extract_select_clause (head @ ''FROM'' @ tail) =
         extract_select_clause (head @ ''FROM'')"
proof -
  from assms obtain i where i: "find0 ''SELECT'' (upper head) = Some i"
    by (auto simp: str_in_def)
  from find0_bound[OF i] have ile: "i \<le> length (upper head)" by simp
  obtain j where j: "find0 ''FROM'' (drop i (upper head) @ ''FROM'') = Some j"
    using find0_found by blast
  from find0_bound[OF j] have jle: "j \<le> length (drop i (upper head))" by simp
  have clause: "extract_select_clause (head @ ''FROM'' @ t) = take j (drop i (upper head))"
    for t
  proof -
    have u: "upper (head @ ''FROM'' @ t) = upper head @ ''FROM'' @ upper t"
      by (simp add: upper_def upper_char_def lower_letters_def upper_letters_def)
    have s: "find0 ''SELECT'' (upper head @ ''FROM'' @ upper t) = Some i"
      using find0_append[OF i] by simp
    have d: "drop i (upper head @ ''FROM'' @ upper t) =
        (drop i (upper head) @ ''FROM'') @ upper t"
      using ile by simp
    have f: "find0 ''FROM'' (drop i (upper head @ ''FROM'' @ upper t)) = Some j"
      unfolding d by (rule find0_append[OF j])
    have len: "i \<le> length (upper head @ ''FROM'' @ upper t)"
      using ile by simp
    have t: "take j (drop i (upper head @ ''FROM'' @ upper t)) = take j (drop i (upper head))"
      unfolding d using jle by simp
    show ?thesis
      unfolding extract_select_clause_def Let_def u
      using s f len t by (simp add: str_find_def slice_def)
  qed
  show ?thesis
    using clause[of tail] clause[of "[]"] by simp
qed

lemma missing_aggregate_ignores_tail:
  assumes "str_in ''SELECT'' (upper head)"
  shows "check_missing_aggregate_with_group_by (head @ ''FROM'' @ tail) query_text =
         check_missing_aggregate_with_group_by (head @ ''FROM'') query_text"
  unfolding check_missing_aggregate_with_group_by_def Let_def
    extract_select_clause_tail[OF assms]
  by (rule refl)

section \<open>Properties of the learning path\<close>

lemma loop_step:
  "prerequisites_loop concepts c acc =
     (case next_concept concepts c of
        None \<Rightarrow> Some acc
      | Some p \<Rightarrow> prerequisites_loop concepts p (acc @ [p]))"
  by (subst prerequisites_loop.simps)
     (simp add: next_concept_def split: option.splits)

lemma loop_terminates_if:
  "chain_ends concepts n c \<Longrightarrow> \<exists>ps. prerequisites_loop concepts c acc = Some ps"
proof (induction n arbitrary: c acc)
  case 0
  then show ?case by (subst loop_step) simp
next
  case (Suc n)
  show ?case
  proof (cases "next_concept concepts c")
    case None
    then show ?thesis by (subst loop_step) simp
  next
    case (Some p)
    with Suc.prems have "chain_ends concepts n p" by simp
    from Suc.IH[OF this] obtain ps where "prerequisites_loop concepts p (acc @ [p]) = Some ps"
      by blast
    with Some show ?thesis by (subst loop_step) simp
  qed
qed

lemma loop_terminates_only_if:
  assumes "prerequisites_loop concepts c acc = Some ps"
  shows "\<exists>n. chain_ends concepts n c"
proof (rule prerequisites_loop.raw_induct
    [where P = "\<lambda>cs c acc ps. \<exists>n. chain_ends cs n c", OF _ assms], goal_cases)
  case (1 f cs c acc ps)
  show ?case
  proof (cases "next_concept cs c")
    case None
    then have "chain_ends cs 0 c" by simp
    then show ?thesis by blast
  next
    case (Some p)
    then have "f cs p (acc @ [p]) = Some ps"
      using "1"(2) by (auto simp: next_concept_def split: option.splits if_splits)
    from "1"(1)[OF this] obtain n where "chain_ends cs n p" by blast
    with Some have "chain_ends cs (Suc n) c" by simp
    then show ?thesis by blast
  qed
qed

lemma cyc_never_ends:
  "c = ''group_by_concept'' \<or> c = ''aggregate_functions_concept'' \<Longrightarrow> \<not> chain_ends cyclic_concepts n c"
proof (induction n arbitrary: c)
  case 0
  then show ?case by (auto simp: next_concept_def cyclic_concepts_def)
next
  case (Suc n)
  from Suc.prems show ?case
  proof
    assume c: "c = ''group_by_concept''"
    have "next_concept cyclic_concepts ''group_by_concept'' = Some ''aggregate_functions_concept''"
      by (simp add: next_concept_def cyclic_concepts_def)
    with c Suc.IH[of "''aggregate_functions_concept''"] show ?thesis by simp
  next
    assume c: "c = ''aggregate_functions_concept''"
    have "next_concept cyclic_concepts ''aggregate_functions_concept'' = Some ''group_by_concept''"
      by (simp add: next_concept_def cyclic_concepts_def)
    with c Suc.IH[of "''group_by_concept''"] show ?thesis by simp
  qed
qed

lemma distinct_set_add: "distinct xs \<Longrightarrow> distinct (set_add x xs)"
  by (simp add: set_add_def)

lemma distinct_set_update: "distinct xs \<Longrightarrow> distinct (set_update ys xs)"
  unfolding set_update_def
  by (induction ys arbitrary: xs) (simp_all add: distinct_set_add)

lemma distinct_concepts_for_error:
  "distinct xs \<Longrightarrow> distinct (concepts_for_error e xs)"
  by (simp add: concepts_for_error_def Let_def distinct_set_add)

lemma distinct_concepts_needed:
  "distinct xs \<Longrightarrow> distinct (fold concepts_for_error es xs)"
  by (induction es arbitrary: xs) (simp_all add: distinct_concepts_for_error)

lemma distinct_add_prerequisites:
  "add_prerequisites concepts cs all_concepts = Some r \<Longrightarrow> distinct all_concepts \<Longrightarrow>
   distinct r"
  by (induction cs arbitrary: all_concepts)
     (auto split: option.splits dest: distinct_set_update)

lemma add_prerequisites_returns:
  "\<forall>c \<in> set cs. \<exists>n. chain_ends concepts n c \<Longrightarrow>
   \<exists>r. add_prerequisites concepts cs all_concepts = Some r"
proof (induction cs arbitrary: all_concepts)
  case Nil
  then show ?case by simp
next
  case (Cons c cs)
  then obtain n where "chain_ends concepts n c" by auto
  from loop_terminates_if[OF this] obtain ps
    where "get_concept_prerequisites concepts c = Some ps"
    unfolding get_concept_prerequisites_def by blast
  with Cons show ?case by simp
qed

text \<open>
  Claim C6, as the code has it.  The prerequisite walk of \<open>get_concept_prerequisites\<close>
  terminates exactly when the chain of prerequisite links from the starting concept
  breaks after finitely many links; the loop keeps no record of the concepts it has
  visited.  When the chains of all the selected concepts break, \<open>suggest_learning_path\<close>
  returns, and its result has no duplicates and is sorted ascending by difficulty.
\<close>

theorem learning_path_walk:
  "(get_concept_prerequisites concepts c \<noteq> None \<longleftrightarrow> (\<exists>n. chain_ends concepts n c)) \<and>
   ((\<forall>c \<in> set (fold concepts_for_error current_errors []). \<exists>n. chain_ends concepts n c) \<longrightarrow>
    (\<exists>path. suggest_learning_path concepts current_errors = Some path \<and> distinct path \<and>
       sorted (map (difficulty_of concepts) path)))"
proof (intro conjI impI)
  show "get_concept_prerequisites concepts c \<noteq> None \<longleftrightarrow> (\<exists>n. chain_ends concepts n c)"
    unfolding get_concept_prerequisites_def
    using loop_terminates_if loop_terminates_only_if by blast
next
  let ?needed = "fold concepts_for_error current_errors []"
  assume "\<forall>c \<in> set ?needed. \<exists>n. chain_ends concepts n c"
  from add_prerequisites_returns[OF this] obtain r
    where r: "add_prerequisites concepts ?needed ?needed = Some r" by blast
  have "distinct ?needed" by (rule distinct_concepts_needed) simp
  with r have "distinct r" by (rule distinct_add_prerequisites)
  with r show "\<exists>path. suggest_learning_path concepts current_errors = Some path \<and>
      distinct path \<and> sorted (map (difficulty_of concepts) path)"
    by (simp add: suggest_learning_path_def Let_def sorted_sort_key)
qed

theorem learning_path_walk_witness:
  "suggest_learning_path sample_concepts [''JOIN_ERROR''] =
     Some [''select_concept'', ''where_clause_concept'', ''join_concept''] \<and>
   (\<exists>path. suggest_learning_path sample_concepts [''JOIN_ERROR''] = Some path \<and>
      distinct path \<and> sorted (map (difficulty_of sample_concepts) path))"
proof -
  have n: "fold concepts_for_error [''JOIN_ERROR''] [] = [''join_concept'']"
    by code_simp
  have "chain_ends sample_concepts 2 ''join_concept''"
    by code_simp
  with n have "\<forall>c \<in> set (fold concepts_for_error [''JOIN_ERROR''] []).
      \<exists>n. chain_ends sample_concepts n c"
    by auto
  with learning_path_walk [of sample_concepts _ "[''JOIN_ERROR'']"]
  have "\<exists>path. suggest_learning_path sample_concepts [''JOIN_ERROR''] = Some path \<and>
      distinct path \<and> sorted (map (difficulty_of sample_concepts) path)"
    by blast
  moreover have w: "get_concept_prerequisites sample_concepts ''join_concept'' =
     Some [''where_clause_concept'', ''select_concept'']"
    by (simp add: get_concept_prerequisites_def loop_step next_concept_def
        sample_concepts_def)
  have a: "add_prerequisites sample_concepts [''join_concept''] [''join_concept''] =
     Some [''join_concept'', ''where_clause_concept'', ''select_concept'']"
    by (simp add: w set_update_def set_add_def)
  have "suggest_learning_path sample_concepts [''JOIN_ERROR''] =
     Some [''select_concept'', ''where_clause_concept'', ''join_concept'']"
    unfolding suggest_learning_path_def Let_def n a
    by (simp add: difficulty_of_def sample_concepts_def)
  ultimately show ?thesis by blast
qed

text \<open>
  On a table whose links form a cycle (each of two concepts names the other as its
  prerequisite) the walk does not terminate.
\<close>

theorem prerequisite_walk_diverges_on_cycle: "get_concept_prerequisites cyclic_concepts ''group_by_concept'' = None"
proof (rule ccontr)
  assume "get_concept_prerequisites cyclic_concepts ''group_by_concept'' \<noteq> None"
  then obtain ps where "prerequisites_loop cyclic_concepts ''group_by_concept'' [] = Some ps"
    by (auto simp: get_concept_prerequisites_def)
  from loop_terminates_only_if[OF this] cyc_never_ends show False by blast
qed

section \<open>Properties of the early returns of the analysis\<close>

text \<open>
  Claim C8, as the code has it.  On an empty or white-space-only input \<open>analyze_query\<close>
  returns at once: the only finding is \<open>EMPTY_INPUT\<close> with severity \<open>LOW\<close>, the
  suggestions and the learning path are empty, there is no execution result, nothing
  is executed, and the verdict keeps its initial value \<open>UNKNOWN\<close>.
\<close>

theorem empty_input_short_circuit:
  "strip query_text = [] \<Longrightarrow>
   analyze_query eng query_text =
     (Returns \<lparr>errors = [empty_input_error], warnings = [], suggestions = [],
               learning_path = [], correctness = ''UNKNOWN'', execution_result = None\<rparr>, []) \<and>
   ftype empty_input_error = ''EMPTY_INPUT'' \<and> severity empty_input_error = ''LOW''"
  by (simp add: analyze_query_def initial_feedback_def empty_input_error_def)

theorem empty_input_short_circuit_witness:
  "strip [CHR 0x20, CHR 0x09, CHR 0x0A] = [] \<and>
   analyze_query sample_engine [CHR 0x20, CHR 0x09, CHR 0x0A] =
     (Returns \<lparr>errors = [empty_input_error], warnings = [], suggestions = [],
               learning_path = [], correctness = ''UNKNOWN'', execution_result = None\<rparr>, [])"
proof -
  have s: "strip [CHR 0x20, CHR 0x09, CHR 0x0A] = []"
    by code_simp
  from s empty_input_short_circuit [OF s, of sample_engine] show ?thesis by blast
qed

text \<open>
  The verdict of that report is none of \<open>CORRECT\<close>, \<open>INCORRECT\<close> and \<open>PARTIAL\<close>.
\<close>

theorem empty_input_verdict_unknown:
  "fst (analyze_query sample_engine []) =
     Returns (initial_feedback\<lparr>errors := [empty_input_error]\<rparr>) \<and>
   correctness (initial_feedback\<lparr>errors := [empty_input_error]\<rparr>) = ''UNKNOWN'' \<and>
   ''UNKNOWN'' \<notin> set [''CORRECT'', ''INCORRECT'', ''PARTIAL'']"
  by (simp add: analyze_query_def initial_feedback_def strip_def)

text \<open>
  Claim C7, as the code has it.  When the parser raises, \<open>analyze_query\<close> returns at
  once with the single finding \<open>PARSE_ERROR\<close> of severity \<open>HIGH\<close>: no suggestion is
  synthesised, the learning path is empty, nothing is executed and the verdict stays
  \<open>UNKNOWN\<close>.
\<close>

theorem parse_failure_short_circuit:
  "strip query_text \<noteq> [] \<Longrightarrow> sql_parse eng query_text = Inl e \<Longrightarrow>
   analyze_query eng query_text =
     (Returns \<lparr>errors = [parse_error e], warnings = [], suggestions = [],
               learning_path = [], correctness = ''UNKNOWN'', execution_result = None\<rparr>, []) \<and>
   ftype (parse_error e) = ''PARSE_ERROR'' \<and> severity (parse_error e) = ''HIGH''"
  by (simp add: analyze_query_def initial_feedback_def parse_error_def)

theorem parse_failure_short_circuit_witness:
  "analyze_query unparseable_engine ''SELECT emp_id FROM employees'' =
     (Returns \<lparr>errors = [parse_error ''unparseable''], warnings = [], suggestions = [],
               learning_path = [], correctness = ''UNKNOWN'', execution_result = None\<rparr>, [])"
proof -
  have s: "strip ''SELECT emp_id FROM employees'' \<noteq> []"
    by code_simp
  have p: "sql_parse unparseable_engine ''SELECT emp_id FROM employees'' = Inl ''unparseable''"
    by (simp add: unparseable_engine_def)
  from parse_failure_short_circuit [OF s p] show ?thesis by blast
qed

text \<open>
  The same query text gets suggestions when it parses and none when the parser raises.
\<close>

theorem parse_failure_no_suggestions:
  "(case fst (analyze_query unparseable_engine ''SELECT emp_id FROM employees'') of
      Returns r \<Rightarrow> suggestions r = [] | Raises x \<Rightarrow> False | Diverges \<Rightarrow> False) \<and>
   (case fst (analyze_query sample_engine ''SELECT emp_id FROM employees'') of
      Returns r \<Rightarrow> suggestions r \<noteq> [] | Raises x \<Rightarrow> False | Diverges \<Rightarrow> False)"
  by code_simp

section \<open>Properties of the verdict\<close>

lemma determine_correctness_errors [simp]:
  "errors (determine_correctness fb) = errors fb"
  by (simp add: determine_correctness_def)

lemma determine_correctness_execution [simp]:
  "execution_result (determine_correctness fb) = execution_result fb"
  by (simp add: determine_correctness_def)

lemma determine_correctness_verdict:
  "correctness (determine_correctness fb) =
     (if errors fb = [] then ''CORRECT''
      else if \<exists>e \<in> set (errors fb). severity e = ''HIGH'' then ''INCORRECT''
      else ''PARTIAL'')"
  by (simp add: determine_correctness_def)

lemma analyze_query_returns:
  assumes "strip query_text \<noteq> []"
    and "sql_parse eng query_text = Inr parsed"
    and "analyze_query eng query_text = (Returns r, executed)"
  shows "\<exists>sem sch ef fb.
    check_semantics eng query_text parsed = Inr sem \<and>
    check_schema_constraints eng query_text parsed = Inr sch \<and>
    try_execute_query eng query_text parsed = (Inr ef, executed) \<and>
    r = determine_correctness fb \<and>
    errors fb = check_syntax eng query_text parsed @ sem @ sch @
       (case ef of ExecError err \<Rightarrow> [err] | ExecResult res \<Rightarrow> []) \<and>
    execution_result fb = (case ef of ExecError err \<Rightarrow> None | ExecResult res \<Rightarrow> Some res)"
  using assms
  by (auto simp: analyze_query_def Let_def initial_feedback_def
      split: sum.splits prod.splits option.splits execution_feedback.splits)

lemma table_columns_templates [simp]:
  "table_columns (eng\<lparr>feedback_messages := templates\<rparr>) = table_columns eng"
  by (rule ext) (simp add: table_columns_def)

lemma find_ambiguous_columns_templates [simp]:
  "find_ambiguous_columns (eng\<lparr>feedback_messages := templates\<rparr>) parsed =
   find_ambiguous_columns eng parsed"
  by (simp add: find_ambiguous_columns_def Let_def cong: sum.case_cong if_cong)

lemma schema_error_templates [simp]:
  "schema_error (eng\<lparr>feedback_messages := templates\<rparr>) = schema_error eng"
  by (rule ext) (simp add: schema_error_def)

lemma check_schema_constraints_templates [simp]:
  "check_schema_constraints (eng\<lparr>feedback_messages := templates\<rparr>) query_text parsed =
   check_schema_constraints eng query_text parsed"
  by (simp add: check_schema_constraints_def cong: sum.case_cong if_cong)

lemma run_check_templates [simp]:
  "run_check (eng\<lparr>feedback_messages := templates\<rparr>) name parsed query_text =
   run_check eng name parsed query_text"
  by (simp add: run_check_def check_ambiguous_columns_def)

lemma semantics_loop_templates [simp]:
  "semantics_loop (eng\<lparr>feedback_messages := templates\<rparr>) query_text parsed pats errs =
   semantics_loop eng query_text parsed pats errs"
  by (induction pats arbitrary: errs) (auto split: option.splits sum.splits)

lemma check_semantics_templates [simp]:
  "check_semantics (eng\<lparr>feedback_messages := templates\<rparr>) query_text parsed =
   check_semantics eng query_text parsed"
  by (simp add: check_semantics_def)

lemma check_syntax_templates [simp]:
  "check_syntax (eng\<lparr>feedback_messages := templates\<rparr>) query_text parsed =
   check_syntax eng query_text parsed"
  by (simp add: check_syntax_def split: option.splits)

lemma try_execute_query_templates [simp]:
  "try_execute_query (eng\<lparr>feedback_messages := templates\<rparr>) query_text parsed =
   try_execute_query eng query_text parsed"
  by (simp add: try_execute_query_def)

text \<open>
  When the parser accepts the query, the verdict is derived last, from the collected
  findings alone, and the suggestion templates have no influence on either.
\<close>

lemma verdict_when_parsed:
  assumes nonempty: "strip query_text \<noteq> []"
    and parsed: "sql_parse eng query_text = Inr parsed"
    and returns: "analyze_query eng query_text = (Returns r, executed)"
  shows "(correctness r = ''CORRECT'' \<longleftrightarrow> errors r = []) \<and>
         (correctness r = ''INCORRECT'' \<longleftrightarrow> (\<exists>e \<in> set (errors r). severity e = ''HIGH'')) \<and>
         (correctness r = ''PARTIAL'' \<longleftrightarrow>
            errors r \<noteq> [] \<and> \<not> (\<exists>e \<in> set (errors r). severity e = ''HIGH'')) \<and>
         (analyze_query (eng\<lparr>feedback_messages := templates\<rparr>) query_text =
            (Returns r', executed') \<longrightarrow>
          errors r' = errors r \<and> correctness r' = correctness r)"
proof -
  from analyze_query_returns[OF nonempty parsed returns] obtain sem sch ef fb where
    facts: "check_semantics eng query_text parsed = Inr sem \<and>
      check_schema_constraints eng query_text parsed = Inr sch \<and>
      try_execute_query eng query_text parsed = (Inr ef, executed) \<and>
      r = determine_correctness fb \<and>
      errors fb = check_syntax eng query_text parsed @ sem @ sch @
         (case ef of ExecError err \<Rightarrow> [err] | ExecResult res \<Rightarrow> []) \<and>
      execution_result fb = (case ef of ExecError err \<Rightarrow> None | ExecResult res \<Rightarrow> Some res)"
    by (elim exE) (erule that)
  note sem = facts[THEN conjunct1]
  note sch = facts[THEN conjunct2, THEN conjunct1]
  note ef = facts[THEN conjunct2, THEN conjunct2, THEN conjunct1]
  note r = facts[THEN conjunct2, THEN conjunct2, THEN conjunct2, THEN conjunct1]
  note fb = facts[THEN conjunct2, THEN conjunct2, THEN conjunct2, THEN conjunct2,
      THEN conjunct1]
  have v1: "correctness r = ''CORRECT'' \<longleftrightarrow> errors r = []"
    unfolding r by (simp add: determine_correctness_verdict)
  have v2: "correctness r = ''INCORRECT'' \<longleftrightarrow> (\<exists>e \<in> set (errors r). severity e = ''HIGH'')"
    unfolding r by (simp add: determine_correctness_verdict)
  have v3: "correctness r = ''PARTIAL'' \<longleftrightarrow>
      errors r \<noteq> [] \<and> \<not> (\<exists>e \<in> set (errors r). severity e = ''HIGH'')"
    unfolding r by (simp add: determine_correctness_verdict)
  have tmpl: "errors r' = errors r \<and> correctness r' = correctness r"
    if other: "analyze_query (eng\<lparr>feedback_messages := templates\<rparr>) query_text =
            (Returns r', executed')"
  proof -
    have parsed': "sql_parse (eng\<lparr>feedback_messages := templates\<rparr>) query_text = Inr parsed"
      using parsed by simp
    from analyze_query_returns[OF nonempty parsed' other] obtain sem' sch' ef' fb' where
      facts': "check_semantics (eng\<lparr>feedback_messages := templates\<rparr>) query_text parsed =
          Inr sem' \<and>
        check_schema_constraints (eng\<lparr>feedback_messages := templates\<rparr>) query_text parsed =
          Inr sch' \<and>
        try_execute_query (eng\<lparr>feedback_messages := templates\<rparr>) query_text parsed =
          (Inr ef', executed') \<and>
        r' = determine_correctness fb' \<and>
        errors fb' =
          check_syntax (eng\<lparr>feedback_messages := templates\<rparr>) query_text parsed @
          sem' @ sch' @ (case ef' of ExecError err \<Rightarrow> [err] | ExecResult res \<Rightarrow> []) \<and>
        execution_result fb' =
          (case ef' of ExecError err \<Rightarrow> None | ExecResult res \<Rightarrow> Some res)"
      by (elim exE) (erule that)
    note r' = facts'[THEN conjunct2, THEN conjunct2, THEN conjunct2, THEN conjunct1]
    note fb' = facts'[THEN conjunct2, THEN conjunct2, THEN conjunct2, THEN conjunct2,
        THEN conjunct1]
    from sem facts'[THEN conjunct1] have "sem' = sem" by simp
    moreover from sch facts'[THEN conjunct2, THEN conjunct1] have "sch' = sch" by simp
    moreover from ef facts'[THEN conjunct2, THEN conjunct2, THEN conjunct1]
    have "ef' = ef" by simp
    ultimately have "errors fb' = errors fb"
      using fb fb' by simp
    then show ?thesis unfolding r r' by (simp add: determine_correctness_verdict)
  qed
  show ?thesis
    apply (intro conjI impI)
        apply (rule v1)
       apply (rule v2)
      apply (rule v3)
     apply (erule tmpl[THEN conjunct1])
    apply (erule tmpl[THEN conjunct2])
    done
qed

lemma findings_when_parsed:
  assumes nonempty: "strip query_text \<noteq> []"
    and parsed: "sql_parse eng query_text = Inr parsed"
    and returns: "analyze_query eng query_text = (Returns r, executed)"
  shows "\<exists>sem sch.
     check_semantics eng query_text parsed = Inr sem \<and>
     check_schema_constraints eng query_text parsed = Inr sch \<and>
     errors r = check_syntax eng query_text parsed @ sem @ sch @
       (case fst (try_execute_query eng query_text parsed) of
          Inl x \<Rightarrow> []
        | Inr (ExecError err) \<Rightarrow> [err]
        | Inr (ExecResult res) \<Rightarrow> [])"
proof -
  from analyze_query_returns[OF nonempty parsed returns] obtain sem sch ef fb where
    facts: "check_semantics eng query_text parsed = Inr sem \<and>
      check_schema_constraints eng query_text parsed = Inr sch \<and>
      try_execute_query eng query_text parsed = (Inr ef, executed) \<and>
      r = determine_correctness fb \<and>
      errors fb = check_syntax eng query_text parsed @ sem @ sch @
         (case ef of ExecError err \<Rightarrow> [err] | ExecResult res \<Rightarrow> []) \<and>
      execution_result fb = (case ef of ExecError err \<Rightarrow> None | ExecResult res \<Rightarrow> Some res)"
    by (elim exE) (erule that)
  note sem = facts[THEN conjunct1]
  note sch = facts[THEN conjunct2, THEN conjunct1]
  note ef = facts[THEN conjunct2, THEN conjunct2, THEN conjunct1]
  note r = facts[THEN conjunct2, THEN conjunct2, THEN conjunct2, THEN conjunct1]
  note fb = facts[THEN conjunct2, THEN conjunct2, THEN conjunct2, THEN conjunct2,
      THEN conjunct1]
  have "errors r = check_syntax eng query_text parsed @ sem @ sch @
       (case fst (try_execute_query eng query_text parsed) of
          Inl x \<Rightarrow> []
        | Inr (ExecError err) \<Rightarrow> [err]
        | Inr (ExecResult res) \<Rightarrow> [])"
    unfolding r ef by (simp add: fb)
  with sem sch show ?thesis by blast
qed

lemma verdict_when_unparsed:
  assumes nonempty: "strip query_text \<noteq> []"
    and unparsed: "sql_parse eng query_text = Inl e"
    and returns: "analyze_query eng query_text = (Returns r, executed)"
  shows "errors r = [parse_error e] \<and> correctness r = ''UNKNOWN'' \<and>
         (analyze_query (eng\<lparr>feedback_messages := templates\<rparr>) query_text =
            (Returns r', executed') \<longrightarrow>
          errors r' = errors r \<and> correctness r' = correctness r)"
  using assms by (auto simp add: analyze_query_def initial_feedback_def)

text \<open>
  Claim C4.  For a non-empty query for which the analysis returns a report there are two
  cases.  If the parser accepted the query, the findings are those of the syntax, the
  semantic and the schema checks followed by the execution error, if any, and the
  verdict is \<open>CORRECT\<close> exactly when there is no finding, \<open>INCORRECT\<close> exactly when
  some finding has severity \<open>HIGH\<close>, and \<open>PARTIAL\<close> in the remaining cases.  If the
  parser raised, the only finding is the \<open>PARSE_ERROR\<close> of severity \<open>HIGH\<close> and the
  verdict is \<open>UNKNOWN\<close>: the analysis returns before the verdict is derived.  In both
  cases the suggestions have no influence: with any other list of suggestion templates
  the analysis of the same query gives the same findings and the same verdict.
\<close>

theorem verdict_from_findings:
  assumes nonempty: "strip query_text \<noteq> []"
    and returns: "analyze_query eng query_text = (Returns r, executed)"
  shows "(sql_parse eng query_text = Inl e \<longrightarrow>
            errors r = [parse_error e] \<and> severity (parse_error e) = ''HIGH'' \<and>
            correctness r = ''UNKNOWN'') \<and>
         (sql_parse eng query_text = Inr parsed \<longrightarrow>
            (\<exists>sem sch.
               check_semantics eng query_text parsed = Inr sem \<and>
               check_schema_constraints eng query_text parsed = Inr sch \<and>
               errors r = check_syntax eng query_text parsed @ sem @ sch @
                 (case fst (try_execute_query eng query_text parsed) of
                    Inl x \<Rightarrow> []
                  | Inr (ExecError err) \<Rightarrow> [err]
                  | Inr (ExecResult res) \<Rightarrow> [])) \<and>
            (correctness r = ''CORRECT'' \<longleftrightarrow> errors r = []) \<and>
            (correctness r = ''INCORRECT'' \<longleftrightarrow>
               (\<exists>e \<in> set (errors r). severity e = ''HIGH'')) \<and>
            (correctness r = ''PARTIAL'' \<longleftrightarrow>
               errors r \<noteq> [] \<and> \<not> (\<exists>e \<in> set (errors r). severity e = ''HIGH''))) \<and>
         (analyze_query (eng\<lparr>feedback_messages := templates\<rparr>) query_text =
            (Returns r', executed') \<longrightarrow>
          errors r' = errors r \<and> correctness r' = correctness r)"
proof -
  have unparsed: "errors r = [parse_error e] \<and> severity (parse_error e) = ''HIGH'' \<and>
      correctness r = ''UNKNOWN''"
    if u: "sql_parse eng query_text = Inl e"
    using verdict_when_unparsed[OF nonempty u returns] by (simp add: parse_error_def)
  have parsed: "(\<exists>sem sch.
               check_semantics eng query_text parsed = Inr sem \<and>
               check_schema_constraints eng query_text parsed = Inr sch \<and>
               errors r = check_syntax eng query_text parsed @ sem @ sch @
                 (case fst (try_execute_query eng query_text parsed) of
                    Inl x \<Rightarrow> []
                  | Inr (ExecError err) \<Rightarrow> [err]
                  | Inr (ExecResult res) \<Rightarrow> [])) \<and>
            (correctness r = ''CORRECT'' \<longleftrightarrow> errors r = []) \<and>
            (correctness r = ''INCORRECT'' \<longleftrightarrow>
               (\<exists>e \<in> set (errors r). severity e = ''HIGH'')) \<and>
            (correctness r = ''PARTIAL'' \<longleftrightarrow>
               errors r \<noteq> [] \<and> \<not> (\<exists>e \<in> set (errors r). severity e = ''HIGH''))"
    if p: "sql_parse eng query_text = Inr parsed"
  proof -
    note v = verdict_when_parsed[OF nonempty p returns, of templates r' executed']
    note f = findings_when_parsed[OF nonempty p returns]
    show ?thesis
      apply (intro conjI)
         apply (rule f)
        apply (rule v[THEN conjunct1])
       apply (rule v[THEN conjunct2, THEN conjunct1])
      apply (rule v[THEN conjunct2, THEN conjunct2, THEN conjunct1])
      done
  qed
  have tmpl: "errors r' = errors r \<and> correctness r' = correctness r"
    if other: "analyze_query (eng\<lparr>feedback_messages := templates\<rparr>) query_text =
            (Returns r', executed')"
  proof (cases "sql_parse eng query_text")
    case (Inl e')
    from verdict_when_unparsed[OF nonempty Inl returns, of templates r' executed'] other
    show ?thesis by blast
  next
    case (Inr parsed')
    from verdict_when_parsed[OF nonempty Inr returns, of templates r' executed'] other
    show ?thesis by blast
  qed
  show ?thesis
    apply (intro conjI)
      apply (rule impI)
      apply (erule unparsed)
     apply (rule impI)
     apply (erule parsed)
    apply (rule impI)
    apply (erule tmpl)
    done
qed

theorem verdict_from_findings_witness:
  "\<exists>r executed.
     analyze_query sample_engine ''SELECT department FROM employees, projects'' =
       (Returns r, executed) \<and>
     errors r \<noteq> [] \<and> correctness r = ''PARTIAL''"
proof -
  have "case analyze_query sample_engine ''SELECT department FROM employees, projects'' of
          (Returns r, executed) \<Rightarrow>
            errors r \<noteq> [] \<and> \<not> (\<exists>e \<in> set (errors r). severity e = ''HIGH'')
        | (Raises x, executed) \<Rightarrow> False
        | (Diverges, executed) \<Rightarrow> False"
    by code_simp
  then obtain r executed where
    run: "analyze_query sample_engine ''SELECT department FROM employees, projects'' =
       (Returns r, executed)"
    and e: "errors r \<noteq> []" "\<not> (\<exists>e \<in> set (errors r). severity e = ''HIGH'')"
    by (auto split: prod.splits outcome.splits)
  have ne: "strip ''SELECT department FROM employees, projects'' \<noteq> []"
    by code_simp
  have p: "sql_parse sample_engine ''SELECT department FROM employees, projects'' =
      Inr ''SELECT department FROM employees, projects''"
    by (simp add: sample_engine_def)
  from verdict_from_findings[OF ne run, THEN conjunct2, THEN conjunct1, rule_format, OF p,
      THEN conjunct2, THEN conjunct2, THEN conjunct2] e
  have "correctness r = ''PARTIAL''" by simp
  with run e show ?thesis by blast
qed

text \<open>
  The claim as the specification states it fails for a non-empty query that the parser
  rejects: its report has a finding of severity \<open>HIGH\<close> and the verdict is not
  \<open>INCORRECT\<close>.
\<close>

theorem parse_failure_verdict_unknown:
  "strip ''SELECT * FROM employees'' \<noteq> [] \<and>
   (case fst (analyze_query unparseable_engine ''SELECT * FROM employees'') of
      Returns r \<Rightarrow>
        (\<exists>e \<in> set (errors r). severity e = ''HIGH'') \<and>
        correctness r \<noteq> ''INCORRECT'' \<and> correctness r = ''UNKNOWN''
    | Raises x \<Rightarrow> False
    | Diverges \<Rightarrow> False)"
  by code_simp


section \<open>Properties of the execution gate\<close>

lemma check_function_enhance [simp]:
  "check_function (enhance_pattern ont (k, check, ty, sev)) = check"
  by (simp add: enhance_pattern_def split: option.splits)

lemma delete_from_tables: "extract_table_names ''DELETE FROM'' = Inl IndexError"
  by code_simp

lemma delete_from_nonempty: "strip ''DELETE FROM'' \<noteq> []"
  by code_simp

lemma delete_from_semantics:
  "check_semantics eng ''DELETE FROM'' ''DELETE FROM'' = Inl IndexError"
  by (simp add: check_semantics_def initialize_error_patterns_def builtin_patterns_def
      run_check_def check_ambiguous_columns_def find_ambiguous_columns_def delete_from_tables)

text \<open>
  Claim C3 (destructive statements).  The claim promises a report with a
  SecurityError finding for every query whose upper-cased text contains a destructive
  keyword.  \<open>DELETE FROM\<close> contains \<open>DELETE\<close>, and its analysis ends in an
  \<open>IndexError\<close>: \<open>_extract_table_names\<close> takes \<open>split()[0]\<close> of the empty FROM
  clause, called from the ambiguous-column check, before the gate is reached.  No report
  is produced (and nothing is executed).
\<close>

theorem destructive_query_crashes:
  "str_in ''DELETE'' (upper ''DELETE FROM'') \<and>
   analyze_query (eng\<lparr>sql_parse := Inr\<rparr>) ''DELETE FROM'' = (Raises IndexError, [])"
proof -
  have "str_in ''DELETE'' (upper ''DELETE FROM'')" by code_simp
  moreover have "analyze_query (eng\<lparr>sql_parse := Inr\<rparr>) ''DELETE FROM'' =
      (Raises IndexError, [])"
    by (simp add: analyze_query_def delete_from_nonempty delete_from_semantics)
  ultimately show ?thesis by simp
qed

text \<open>
  The gate looks for the keywords anywhere in the text.  The lemmas below follow the
  analysis of \<open>SELECT last_update FROM employees\<close> step by step, for any knowledge
  base.
\<close>

lemma suggestions_loop_without_group_by:
  "\<not> str_in ''GROUP BY'' (upper query_text) \<Longrightarrow>
   \<exists>suggs. suggestions_loop query_text parsed templates acc = Inr suggs"
  by (induction templates arbitrary: acc) (auto simp: Let_def)

lemma last_update_nonempty: "strip ''SELECT last_update FROM employees'' \<noteq> []"
  by code_simp

lemma last_update_tables:
  "extract_table_names ''SELECT last_update FROM employees'' = Inr [''EMPLOYEES'']"
  by code_simp

lemma last_update_checks:
  "check_missing_from ''SELECT last_update FROM employees''
     ''SELECT last_update FROM employees'' = False"
  "check_aggregate_in_where ''SELECT last_update FROM employees''
     ''SELECT last_update FROM employees'' = False"
  "check_missing_group_by ''SELECT last_update FROM employees''
     ''SELECT last_update FROM employees'' = False"
  "check_having_without_group ''SELECT last_update FROM employees''
     ''SELECT last_update FROM employees'' = False"
  "check_group_by_column_not_in_select ''SELECT last_update FROM employees''
     ''SELECT last_update FROM employees'' = Inr False"
  "check_missing_aggregate_with_group_by ''SELECT last_update FROM employees''
     ''SELECT last_update FROM employees'' = False"
  by code_simp+

lemma last_update_semantics:
  "check_semantics eng ''SELECT last_update FROM employees''
     ''SELECT last_update FROM employees'' = Inr []"
  by (simp add: check_semantics_def initialize_error_patterns_def builtin_patterns_def
      run_check_def check_ambiguous_columns_def find_ambiguous_columns_def
      last_update_tables last_update_checks)

lemma last_update_starts: "startswith (strip (upper ''SELECT last_update FROM employees'')) ''SELECT''"
  by code_simp

lemma last_update_syntax:
  "check_syntax eng ''SELECT last_update FROM employees''
     ''SELECT last_update FROM employees'' = []"
  by (simp add: check_syntax_def last_update_starts check_clause_order_never_fires)

lemma last_update_schema:
  "\<exists>sch. check_schema_constraints eng ''SELECT last_update FROM employees''
     ''SELECT last_update FROM employees'' = Inr sch \<and>
     (\<forall>e \<in> set sch. ftype e = ''SCHEMA_ERROR'')"
  by (simp add: check_schema_constraints_def last_update_tables schema_error_def Let_def)

lemma last_update_gate:
  "\<exists>keyword \<in> set destructive_keywords.
     str_in keyword (strip (upper ''SELECT last_update FROM employees''))"
  by code_simp

lemma last_update_execute:
  "try_execute_query eng ''SELECT last_update FROM employees''
     ''SELECT last_update FROM employees'' = (Inr (ExecError security_error), [])"
  using last_update_gate by (simp add: try_execute_query_def)

lemma no_concepts:
  "concepts_for_error ''SCHEMA_ERROR'' [] = []"
  "concepts_for_error ''SECURITY_ERROR'' [] = []"
  by code_simp+

lemma no_concepts_fold:
  "(\<And>t. t \<in> set types \<Longrightarrow> concepts_for_error t [] = []) \<Longrightarrow>
   fold concepts_for_error types [] = []"
  by (induction types) simp_all

lemma ftype_security_error: "ftype security_error = ''SECURITY_ERROR''"
  by (simp add: security_error_def)

text \<open>
  Claim C10.  \<open>SELECT last_update FROM employees\<close> consists of the words \<open>SELECT\<close>,
  \<open>LAST_UPDATE\<close>, \<open>FROM\<close> and \<open>EMPLOYEES\<close>, none of them a destructive keyword; the
  identifier \<open>LAST_UPDATE\<close> contains \<open>UPDATE\<close>.  Whatever the knowledge base and the
  database, its analysis returns a report with the \<open>SECURITY_ERROR\<close> finding of
  severity \<open>HIGH\<close>, without an execution result, with the verdict \<open>INCORRECT\<close>, and
  nothing is executed.
\<close>

theorem substring_keyword_rejected:
  "(\<exists>r. analyze_query (eng\<lparr>sql_parse := Inr\<rparr>) ''SELECT last_update FROM employees'' =
         (Returns r, []) \<and>
       security_error \<in> set (errors r) \<and>
       ftype security_error = ''SECURITY_ERROR'' \<and> severity security_error = ''HIGH'' \<and>
       execution_result r = None \<and> correctness r = ''INCORRECT'') \<and>
   re_findall_words False (upper ''SELECT last_update FROM employees'') =
     [''SELECT'', ''LAST_UPDATE'', ''FROM'', ''EMPLOYEES'']"
proof -
  let ?q = "''SELECT last_update FROM employees''"
  let ?eng = "eng\<lparr>sql_parse := Inr\<rparr>"
  from last_update_schema[of ?eng] obtain sch where
    sch: "check_schema_constraints ?eng ?q ?q = Inr sch"
    and sch_types: "\<forall>e \<in> set sch. ftype e = ''SCHEMA_ERROR''"
    by (elim exE conjE)
  have nogroup: "\<not> str_in ''GROUP BY'' (upper ?q)" by code_simp
  from suggestions_loop_without_group_by[OF nogroup, of ?q "feedback_messages ?eng" "[]"]
  obtain suggs where
    suggs: "generate_ontology_suggestions ?eng ?q ?q (sch @ [security_error]) = Inr suggs"
    unfolding generate_ontology_suggestions_def by (elim exE)
  have "fold concepts_for_error (map ftype (sch @ [security_error])) [] = []"
  proof (rule no_concepts_fold)
    fix t assume "t \<in> set (map ftype (sch @ [security_error]))"
    with sch_types have "t = ''SCHEMA_ERROR'' \<or> t = ''SECURITY_ERROR''"
      by (auto simp: ftype_security_error)
    then show "concepts_for_error t [] = []" using no_concepts by blast
  qed
  then have path: "suggest_learning_path (sql_concepts ?eng)
      (map ftype (sch @ [security_error])) = Some []"
    by (simp add: suggest_learning_path_def)
  let ?fb = "initial_feedback\<lparr>errors := sch @ [security_error], suggestions := suggs,
      learning_path := []\<rparr>"
  have run: "analyze_query ?eng ?q = (Returns (determine_correctness ?fb), [])"
    using sch suggs path
    by (simp add: analyze_query_def last_update_nonempty last_update_syntax
        last_update_semantics last_update_execute)
  have "correctness (determine_correctness ?fb) = ''INCORRECT''"
    by (simp add: determine_correctness_verdict security_error_def)
  moreover have "security_error \<in> set (errors (determine_correctness ?fb))" by simp
  moreover have "execution_result (determine_correctness ?fb) = None"
    by (simp add: initial_feedback_def)
  moreover have "ftype security_error = ''SECURITY_ERROR''" "severity security_error = ''HIGH''"
    by (simp_all add: security_error_def)
  ultimately have "\<exists>r. analyze_query ?eng ?q = (Returns r, []) \<and>
       security_error \<in> set (errors r) \<and>
       ftype security_error = ''SECURITY_ERROR'' \<and> severity security_error = ''HIGH'' \<and>
       execution_result r = None \<and> correctness r = ''INCORRECT''"
    using run by blast
  moreover have "re_findall_words False (upper ?q) =
     [''SELECT'', ''LAST_UPDATE'', ''FROM'', ''EMPLOYEES'']"
    by code_simp
  ultimately show ?thesis by (rule conjI)
qed

theorem substring_keyword_rejected_witness:
  "\<exists>r. analyze_query sample_engine ''SELECT last_update FROM employees'' = (Returns r, []) \<and>
       security_error \<in> set (errors r) \<and> execution_result r = None \<and>
       correctness r = ''INCORRECT''"
proof -
  have e: "sample_engine\<lparr>sql_parse := Inr\<rparr> = sample_engine"
    by (simp add: sample_engine_def)
  from substring_keyword_rejected[of sample_engine, THEN conjunct1]
  obtain r where "analyze_query sample_engine ''SELECT last_update FROM employees'' =
         (Returns r, []) \<and>
       security_error \<in> set (errors r) \<and>
       ftype security_error = ''SECURITY_ERROR'' \<and> severity security_error = ''HIGH'' \<and>
       execution_result r = None \<and> correctness r = ''INCORRECT''"
    unfolding e by (elim exE)
  then show ?thesis by blast
qed

section \<open>Properties of the suggestions\<close>

text \<open>\<open>upper\<close> leaves no lower-case letter.\<close>

lemma letters_disjoint: "set lower_letters \<inter> set upper_letters = {}"
  by (simp add: lower_letters_def upper_letters_def)

lemma letters_length: "length lower_letters = length upper_letters"
  by (simp add: lower_letters_def upper_letters_def)

lemma upper_char_not_lower: "upper_char c \<notin> set lower_letters"
proof (cases "map_of (zip lower_letters upper_letters) c")
  case None
  then have "c \<notin> set lower_letters"
    by (simp add: map_of_zip_is_None[OF letters_length])
  with None show ?thesis by (simp add: upper_char_def)
next
  case (Some u)
  then have "u \<in> set upper_letters"
    by (meson map_of_SomeD set_zip_rightD)
  with letters_disjoint have "u \<notin> set lower_letters" by blast
  with Some show ?thesis by (simp add: upper_char_def)
qed

lemma str_in_subset: "str_in sub s \<Longrightarrow> set sub \<subseteq> set s"
  unfolding str_in_iff by auto

lemma upper_no_lower_letter: "c \<in> set lower_letters \<Longrightarrow> c \<notin> set (upper s)"
  using upper_char_not_lower by (auto simp: upper_def)

text \<open>
  The branch of \<open>_generate_ontology_suggestions\<close> for the join template tests the
  lower-case literals \<open>employees\<close> and \<open>departments\<close> against the upper-cased query
  text, where every other test of the loop uses an upper-case literal.  The test holds
  of no query.
\<close>

lemma employees_not_in_upper: "\<not> str_in ''employees'' (upper s)"
proof
  assume "str_in ''employees'' (upper s)"
  then have "CHR ''e'' \<in> set (upper s)"
    by (auto dest: str_in_subset)
  moreover have "CHR ''e'' \<in> set lower_letters"
    by (simp add: lower_letters_def)
  ultimately show False
    using upper_no_lower_letter by blast
qed

text \<open>
  So a template whose key carries none of the other four tags is skipped, whatever the
  query is and whether or not the key carries the tag \<open>join\<close>.
\<close>

lemma join_template_skipped:
  assumes "\<not> str_in ''order_by'' (lower sugg_key)"
    and "\<not> str_in ''select_star'' (lower sugg_key)"
    and "\<not> str_in ''group_by_aggregate'' (lower sugg_key)"
    and "\<not> str_in ''group_by_select'' (lower sugg_key)"
  shows "suggestions_loop query_text parsed ((sugg_key, info) # rest) suggs =
         suggestions_loop query_text parsed rest suggs"
  using assms by (simp add: employees_not_in_upper)

text \<open>
  Claim C9.  The query \<open>SELECT * FROM employees, departments\<close> names two tables (as
  \<open>_extract_table_names\<close> reads it) and has no \<open>JOIN\<close>, and the knowledge base supplies
  the template \<open>join_suggestion\<close>.  The synthesizer emits the ORDER BY and the
  \<open>SELECT *\<close> suggestions only; the multi-table-without-JOIN suggestion is not among
  the suggestions of the report.
\<close>

theorem join_suggestion_not_emitted:
  "extract_table_names ''SELECT * FROM employees, departments'' =
     Inr [''EMPLOYEES'', ''DEPARTMENTS''] \<and>
   \<not> str_in ''JOIN'' (upper ''SELECT * FROM employees, departments'') \<and>
   map_of (feedback_messages sample_engine) ''join_suggestion'' =
     Some \<lparr>sugg_message = ''Use an explicit JOIN.'', sugg_type = ''SUGGESTION''\<rparr> \<and>
   generate_ontology_suggestions sample_engine ''SELECT * FROM employees, departments''
       ''SELECT * FROM employees, departments'' [] =
     Inr [suggestion \<lparr>sugg_message = ''Consider adding ORDER BY.'',
                      sugg_type = ''SUGGESTION''\<rparr> ''LOW'',
          suggestion \<lparr>sugg_message = ''Name the columns instead of *.'',
                      sugg_type = ''SUGGESTION''\<rparr> ''LOW''] \<and>
   (case fst (analyze_query sample_engine ''SELECT * FROM employees, departments'') of
      Returns r \<Rightarrow>
        suggestion \<lparr>sugg_message = ''Use an explicit JOIN.'', sugg_type = ''SUGGESTION''\<rparr>
          ''MEDIUM'' \<notin> set (suggestions r)
    | Raises x \<Rightarrow> False
    | Diverges \<Rightarrow> False)"
  by code_simp


end
